theory Spec2Isabelle
  imports Complex_Main "HOL-Library.Multiset"
begin

section \<open>Data model of the trading system\<close>

text \<open>
  The services of the repository are C++ class templates instantiated at the product
  type \<open>Bond\<close>. The embedding follows the headers one by one.

  Conventions of the embedding:
  \<^item> a C++ \<open>double\<close> is an exact rational (\<open>rat\<close>): the prices read by
    \<open>ConvertBondPrice\<close> are multiples of 1/256, which are compared, subtracted and
    copied without rounding; the PV01 factors are constants that are only stored and
    copied; NaN and infinities do not occur;
  \<^item> a C++ \<open>long\<close> is an \<open>int\<close>; signed overflow is undefined in C++ and is not
    part of the model;
  \<^item> a member function that mutates its service takes the service state and returns the
    new one; the values handed to the registered listeners (\<open>ProcessAdd\<close>) are
    appended, in call order, to a log kept in the state;
  \<^item> a function-local \<open>static\<close> object is a slot of type \<open>'a option\<close> that is
    passed in and returned: \<open>None\<close> before the declaration has been reached for the
    first time, \<open>Some v\<close> afterwards;
  \<^item> an exception or an undefined operation is the \<open>Inl\<close> branch of a sum.
\<close>

type_synonym price = rat

text \<open>\<open>products.hpp\<close> is not among the sources; the services only call
  \<open>GetProductId\<close> on a product, and \<open>GetBond\<close> (utils.hpp) shows the ticker.\<close>

record Bond =
  productId :: string
  ticker :: string

text \<open>The default-constructed \<open>Bond()\<close>.\<close>

definition Bond_default :: Bond where
  "Bond_default = \<lparr> productId = [], ticker = [] \<rparr>"

datatype PricingSide = BID | OFFER

datatype Side = BUY | SELL

datatype OrderType = FOK | IOC | MARKET | LIMIT | STOP

datatype InquiryState = RECEIVED | QUOTED | DONE | REJECTED | CUSTOMER_REJECTED

datatype error =
    NotFound string        \<comment> \<open>the \<open>runtime_error\<close> of a \<open>GetData\<close> on an absent key\<close>
  | EmptyBook string       \<comment> \<open>the \<open>runtime_error\<close> "Bid or offer stack is empty"\<close>
  | UndefinedFront         \<comment> \<open>\<open>front()\<close> of an empty vector: undefined, nothing is thrown\<close>

subsection \<open>Maps with a running total per key\<close>

text \<open>Two maps of the sources hold a \<open>long\<close> per key and are only ever changed by
  adding to the entry of a key, creating the entry when the key is new:
  \<open>priceToQuantity[price] += quantity\<close> in \<open>AggregateOrders\<close> (an
  \<open>unordered_map<double, long>\<close>) and \<open>Position::AddPosition\<close> (a
  \<open>map<string, long>\<close>: \<open>it->second += quantity\<close>, else \<open>positions[book] = quantity\<close>).
  Both are association lists with one entry per key. The order of the entries is the
  order of first insertion; the C++ containers iterate in hash order and in key order, so
  no statement below depends on the order of a list of entries.\<close>

fun add_entry :: "('k \<times> int) list \<Rightarrow> 'k \<Rightarrow> int \<Rightarrow> ('k \<times> int) list" where
  "add_entry [] k quantity = [(k, quantity)]"
| "add_entry ((k', q) # m) k quantity =
     (if k' = k then (k', q + quantity) # m else (k', q) # add_entry m k quantity)"

text \<open>\<open>m[k]\<close> read as a value: 0 for a key without an entry.\<close>

definition qty_at :: "('k \<times> int) list \<Rightarrow> 'k \<Rightarrow> int" where
  "qty_at m k = (case map_of m k of Some q \<Rightarrow> q | None \<Rightarrow> 0)"

subsection \<open>marketdataservice.hpp: orders and order books\<close>

record Order =
  order_price :: price
  order_quantity :: int
  order_side :: PricingSide

record BidOffer =
  bidOrder :: Order
  offerOrder :: Order

record OrderBook =
  book_product :: Bond
  bidStack :: "Order list"
  offerStack :: "Order list"

text \<open>The two scanning loops shared by \<open>OrderBook::GetBidAsk\<close> and
  \<open>MarketDataService::GetBestBidOffer\<close>: the running best is replaced only by a
  strictly better price.\<close>

fun scan_bids :: "Order \<Rightarrow> Order list \<Rightarrow> Order" where
  "scan_bids bestBid [] = bestBid"
| "scan_bids bestBid (bid # bids) =
     scan_bids (if order_price bid > order_price bestBid then bid else bestBid) bids"

fun scan_offers :: "Order \<Rightarrow> Order list \<Rightarrow> Order" where
  "scan_offers bestOffer [] = bestOffer"
| "scan_offers bestOffer (offer # asks) =
     scan_offers (if order_price offer < order_price bestOffer then offer else bestOffer) asks"

text \<open>The value the initialiser of the static \<open>bestBidOffer\<close> denotes for two
  non-empty stacks.\<close>

definition best_of :: "Order list \<Rightarrow> Order list \<Rightarrow> BidOffer" where
  "best_of bids asks =
     \<lparr> bidOrder = scan_bids (hd bids) bids, offerOrder = scan_offers (hd asks) asks \<rparr>"

text \<open>\<open>static T x(init); return x;\<close>: the initialiser is evaluated only when the slot is
  still empty; afterwards the stored object is returned whatever \<open>init\<close> would be.\<close>

definition static_local :: "'a option \<Rightarrow> 'a \<Rightarrow> 'a \<times> 'a option" where
  "static_local slot init =
     (case slot of None \<Rightarrow> (init, Some init) | Some v \<Rightarrow> (v, Some v))"

text \<open>\<open>OrderBook::GetBidAsk\<close> (lines 172-194). There is no emptiness check. The
  pointers \<open>&bids.front()\<close> and \<open>&asks.front()\<close> are taken at once, but the pointer into
  an empty stack is followed only in the initialiser of the static: the loop over an
  empty stack does not run. So once the static exists, the call returns it for every
  book; while it does not exist, a book with an empty stack makes the initialiser read
  through the pointer of \<open>front()\<close> of an empty vector, which is undefined (no exception
  is thrown).\<close>

definition GetBidAsk :: "BidOffer option \<Rightarrow> OrderBook \<Rightarrow> error + (BidOffer \<times> BidOffer option)" where
  "GetBidAsk slot book =
     (let bids = bidStack book; asks = offerStack book in
      case slot of
        Some v \<Rightarrow> Inr (v, Some v)
      | None \<Rightarrow>
          if bids = [] \<or> asks = [] then Inl UndefinedFront
          else Inr (best_of bids asks, Some (best_of bids asks)))"

text \<open>\<open>MarketDataService\<close>: the order books keyed by product id, and the log of the books
  handed to the listeners.\<close>

record MarketDataService =
  orderBooks :: "string \<rightharpoonup> OrderBook"
  md_notified :: "OrderBook list"

definition MarketDataService_init :: MarketDataService where
  "MarketDataService_init = \<lparr> orderBooks = Map.empty, md_notified = [] \<rparr>"

definition MarketDataService_OnMessage :: "MarketDataService \<Rightarrow> OrderBook \<Rightarrow> MarketDataService" where
  "MarketDataService_OnMessage s data =
     s\<lparr> orderBooks := (orderBooks s)(productId (book_product data) \<mapsto> data),
        md_notified := md_notified s @ [data] \<rparr>"

text \<open>\<open>orderBooks[productId]\<close>: \<open>operator[]\<close> inserts a value-initialised book under
  an absent key. \<open>OrderBook\<close> declares no default constructor, so the empty book below is
  the only reading under which the two callers can be instantiated.\<close>

definition OrderBook_default :: OrderBook where
  "OrderBook_default = \<lparr> book_product = Bond_default, bidStack = [], offerStack = [] \<rparr>"

definition orderBooks_at :: "MarketDataService \<Rightarrow> string \<Rightarrow> OrderBook \<times> MarketDataService" where
  "orderBooks_at s k =
     (case orderBooks s k of
        Some b \<Rightarrow> (b, s)
      | None \<Rightarrow> (OrderBook_default, s\<lparr> orderBooks := (orderBooks s)(k \<mapsto> OrderBook_default) \<rparr>))"

text \<open>\<open>MarketDataService::GetBestBidOffer\<close> (lines 312-344): the check, the same two
  loops, the same static.\<close>

definition GetBestBidOffer ::
  "BidOffer option \<Rightarrow> MarketDataService \<Rightarrow> string
     \<Rightarrow> error + (BidOffer \<times> BidOffer option \<times> MarketDataService)" where
  "GetBestBidOffer slot s pid =
     (let (book, s') = orderBooks_at s pid;
          bids = bidStack book; asks = offerStack book in
      if bids = [] \<or> asks = [] then Inl (EmptyBook pid)
      else (let (r, slot') = static_local slot (best_of bids asks) in Inr (r, slot', s')))"

text \<open>\<open>MarketDataService::AggregateOrders\<close> (lines 347-359): the loop that fills
  \<open>priceToQuantity\<close>, then one order per entry of the map.\<close>

fun priceToQuantity :: "(price \<times> int) list \<Rightarrow> Order list \<Rightarrow> (price \<times> int) list" where
  "priceToQuantity m [] = m"
| "priceToQuantity m (order # orders) =
     priceToQuantity (add_entry m (order_price order) (order_quantity order)) orders"

definition AggregateOrders :: "Order list \<Rightarrow> PricingSide \<Rightarrow> Order list" where
  "AggregateOrders orders type =
     map (\<lambda>(p, q). \<lparr> order_price = p, order_quantity = q, order_side = type \<rparr>)
       (priceToQuantity [] orders)"

text \<open>The book the initialiser of the static in \<open>AggregateDepth\<close> denotes.\<close>

definition aggregate_book :: "OrderBook \<Rightarrow> OrderBook" where
  "aggregate_book b =
     \<lparr> book_product = book_product b,
       bidStack = AggregateOrders (bidStack b) BID,
       offerStack = AggregateOrders (offerStack b) OFFER \<rparr>"

text \<open>\<open>MarketDataService::AggregateDepth\<close> (lines 361-369).\<close>

definition AggregateDepth ::
  "OrderBook option \<Rightarrow> MarketDataService \<Rightarrow> string
     \<Rightarrow> OrderBook \<times> OrderBook option \<times> MarketDataService" where
  "AggregateDepth slot s pid =
     (let (book, s') = orderBooks_at s pid;
          (r, slot') = static_local slot (aggregate_book book)
      in (r, slot', s'))"

subsection \<open>executionservice.hpp and algoexecutionservice.hpp\<close>

text \<open>\<open>ExecutionOrder\<close> keeps its two quantities in \<open>double\<close> fields; the getters
  return \<open>long\<close>, which truncates towards zero.\<close>

record ExecutionOrder =
  eo_product :: Bond
  eo_side :: PricingSide
  orderId :: string
  orderType :: OrderType
  eo_price :: price
  visibleQuantity :: rat
  hiddenQuantity :: rat
  parentOrderId :: string
  isChildOrder :: bool

definition long_of_double :: "rat \<Rightarrow> int" where
  "long_of_double x = (if 0 \<le> x then \<lfloor>x\<rfloor> else \<lceil>x\<rceil>)"

definition GetVisibleQuantity :: "ExecutionOrder \<Rightarrow> int" where
  "GetVisibleQuantity order = long_of_double (visibleQuantity order)"

definition GetHiddenQuantity :: "ExecutionOrder \<Rightarrow> int" where
  "GetHiddenQuantity order = long_of_double (hiddenQuantity order)"

text \<open>\<open>AlgoExecution\<close> owns one \<open>ExecutionOrder\<close>, built by its constructor and never
  changed.\<close>

record AlgoExecution =
  executionOrder :: ExecutionOrder

record AlgoExecutionService =
  algoExe :: "string \<rightharpoonup> AlgoExecution"
  algo_notified :: "AlgoExecution list"
  spread :: price
  side :: int

definition AlgoExecutionService_init :: AlgoExecutionService where
  "AlgoExecutionService_init =
     \<lparr> algoExe = Map.empty, algo_notified = [], spread = 1 / 128, side = 0 \<rparr>"

definition AlgoExecutionService_OnMessage ::
  "AlgoExecutionService \<Rightarrow> AlgoExecution \<Rightarrow> AlgoExecutionService" where
  "AlgoExecutionService_OnMessage s data =
     s\<lparr> algoExe := (algoExe s)(productId (eo_product (executionOrder data)) \<mapsto> data),
        algo_notified := algo_notified s @ [data] \<rparr>"

text \<open>A \<open>long\<close> passed where a \<open>double\<close> is expected is converted to the nearest
  value with a 53-bit significand, ties to the even significand: exact up to \<open>2^53\<close> in
  absolute value, a multiple of \<open>2^e\<close> beyond, where \<open>e\<close> is the number of bits the
  magnitude has above 53.\<close>

function ulp_exp :: "nat \<Rightarrow> nat" where
  "ulp_exp a = (if a < 2 ^ 53 then 0 else Suc (ulp_exp (a div 2)))"
  by pat_completeness auto
termination
  by (relation "measure id") auto

declare ulp_exp.simps [simp del]

definition double_of_long :: "int \<Rightarrow> rat" where
  "double_of_long q =
     (let a = nat \<bar>q\<bar>;
          m = 2 ^ ulp_exp a;
          lo = a div m;
          r = a mod m;
          n = (if 2 * r > m \<or> (2 * r = m \<and> odd lo) then lo + 1 else lo) * m
      in of_int (sgn q * int n))"

text \<open>\<open>CreateExecutionOrder\<close>; \<open>rid\<close> is what \<open>GenerateRandomID()\<close> returns for this
  call (clock and random device are outside the model). The constructor of
  \<open>ExecutionOrder\<close> takes its quantities as \<open>double\<close>: the \<open>long\<close> quantity is
  converted, the literal 0 is exact.\<close>

definition CreateExecutionOrder ::
  "OrderBook \<Rightarrow> PricingSide \<Rightarrow> price \<Rightarrow> int \<Rightarrow> string \<Rightarrow> AlgoExecution" where
  "CreateExecutionOrder orderBook sd p quantity rid =
     \<lparr> executionOrder =
         \<lparr> eo_product = book_product orderBook, eo_side = sd, orderId = rid,
           orderType = MARKET, eo_price = p, visibleQuantity = double_of_long quantity,
           hiddenQuantity = 0, parentOrderId = [], isChildOrder = False \<rparr> \<rparr>"

text \<open>The C++ remainder \<open>a % b\<close>: the sign of the dividend.\<close>

definition cpp_rem :: "int \<Rightarrow> int \<Rightarrow> int" where
  "cpp_rem a b = sgn a * (\<bar>a\<bar> mod \<bar>b\<bar>)"

definition DetermineOrderSide :: "AlgoExecutionService \<Rightarrow> PricingSide" where
  "DetermineOrderSide s = (if cpp_rem (side s) 2 = 0 then BID else OFFER)"

text \<open>\<open>AlgoExecutionService::AlgoExecuteOrder\<close> (lines 187-211). The static slot of
  \<open>OrderBook<Bond>::GetBidAsk\<close> is threaded through.\<close>

definition AlgoExecuteOrder ::
  "BidOffer option \<Rightarrow> AlgoExecutionService \<Rightarrow> OrderBook \<Rightarrow> string
     \<Rightarrow> error + (AlgoExecutionService \<times> BidOffer option)" where
  "AlgoExecuteOrder slot s orderBook rid =
     (case GetBidAsk slot orderBook of
        Inl e \<Rightarrow> Inl e
      | Inr (bidOffer, slot') \<Rightarrow>
          (let bidPrice = order_price (bidOrder bidOffer);
               offerPrice = order_price (offerOrder bidOffer) in
           if offerPrice - bidPrice \<le> spread s then
             (let sd = DetermineOrderSide s;
                  p = (if sd = BID then bidPrice else offerPrice);
                  quantity = (if sd = BID then order_quantity (bidOrder bidOffer)
                              else order_quantity (offerOrder bidOffer));
                  algoExecution = CreateExecutionOrder orderBook sd p quantity rid;
                  s1 = AlgoExecutionService_OnMessage s algoExecution
              in Inr (s1\<lparr> side := side s1 + 1 \<rparr>, slot'))
           else Inr (s, slot')))"

text \<open>The market-data replay as the execution engine sees it: every book published by
  \<open>MarketDataService::OnMessage\<close> reaches \<open>MDAlgoListener::ProcessAdd\<close>, which calls
  \<open>AlgoExecuteOrder\<close>. Each book comes with the id its call would generate.\<close>

fun algo_replay ::
  "BidOffer option \<Rightarrow> AlgoExecutionService \<Rightarrow> (OrderBook \<times> string) list
     \<Rightarrow> error + (AlgoExecutionService \<times> BidOffer option)" where
  "algo_replay slot s [] = Inr (s, slot)"
| "algo_replay slot s ((book, rid) # rest) =
     (case AlgoExecuteOrder slot s book rid of
        Inl e \<Rightarrow> Inl e
      | Inr (s', slot') \<Rightarrow> algo_replay slot' s' rest)"

subsection \<open>tradebookingservice.hpp\<close>

record Trade =
  trade_product :: Bond
  tradeId :: string
  trade_price :: price
  trade_book :: string
  trade_quantity :: int
  trade_side :: Side

record TradeBookingService =
  trades :: "string \<rightharpoonup> Trade"
  trade_notified :: "Trade list"

definition TradeBookingService_init :: TradeBookingService where
  "TradeBookingService_init = \<lparr> trades = Map.empty, trade_notified = [] \<rparr>"

definition TradeBookingService_OnMessage :: "TradeBookingService \<Rightarrow> Trade \<Rightarrow> TradeBookingService" where
  "TradeBookingService_OnMessage s data =
     s\<lparr> trades := (trades s)(tradeId data \<mapsto> data),
        trade_notified := trade_notified s @ [data] \<rparr>"

definition BookTrade :: "TradeBookingService \<Rightarrow> Trade \<Rightarrow> TradeBookingService" where
  "BookTrade s trade = TradeBookingService_OnMessage s trade"

text \<open>\<open>ExecutionBookingListener\<close>: the listener's own counter and the service it books
  into.\<close>

record ExecutionBookingListener =
  booking :: TradeBookingService
  count :: int

definition ExecutionBookingListener_init :: ExecutionBookingListener where
  "ExecutionBookingListener_init = \<lparr> booking = TradeBookingService_init, count = 0 \<rparr>"

definition CreateTradeFromExecutionOrder :: "ExecutionOrder \<Rightarrow> string \<Rightarrow> Side \<Rightarrow> Trade" where
  "CreateTradeFromExecutionOrder order book sd =
     \<lparr> trade_product = eo_product order, tradeId = orderId order,
       trade_price = eo_price order, trade_book = book,
       trade_quantity = GetVisibleQuantity order + GetHiddenQuantity order,
       trade_side = sd \<rparr>"

definition DetermineSideFromPricingSide :: "PricingSide \<Rightarrow> Side" where
  "DetermineSideFromPricingSide pricingSide = (if pricingSide = BID then SELL else BUY)"

definition DetermineBookFromCount :: "int \<Rightarrow> string" where
  "DetermineBookFromCount c =
     (let r = cpp_rem c 3 in
      if r = 0 then ''TRSY1''
      else if r = 1 then ''TRSY2''
      else if r = 2 then ''TRSY3''
      else ''TRSY1'')"

text \<open>The trade \<open>ProcessAdd\<close> builds, and \<open>ProcessAdd\<close> itself (lines 378-386): the
  counter is incremented before the book is chosen.\<close>

definition booked_trade :: "ExecutionBookingListener \<Rightarrow> ExecutionOrder \<Rightarrow> Trade" where
  "booked_trade l data =
     CreateTradeFromExecutionOrder data (DetermineBookFromCount (count l + 1))
       (DetermineSideFromPricingSide (eo_side data))"

definition ExecutionBookingListener_ProcessAdd ::
  "ExecutionBookingListener \<Rightarrow> ExecutionOrder \<Rightarrow> ExecutionBookingListener" where
  "ExecutionBookingListener_ProcessAdd l data =
     l\<lparr> count := count l + 1, booking := BookTrade (booking l) (booked_trade l data) \<rparr>"

subsection \<open>positionservice.hpp\<close>

text \<open>\<open>Position\<close>: the product and a \<open>map<string, long>\<close> from book to quantity.\<close>

record Position =
  pos_product :: Bond
  positions :: "(string \<times> int) list"

definition Position_new :: "Bond \<Rightarrow> Position" where
  "Position_new product = \<lparr> pos_product = product, positions = [] \<rparr>"

definition Position_AddPosition :: "Position \<Rightarrow> string \<Rightarrow> int \<Rightarrow> Position" where
  "Position_AddPosition p book quantity = p\<lparr> positions := add_entry (positions p) book quantity \<rparr>"

definition GetAggregatePosition :: "Position \<Rightarrow> int" where
  "GetAggregatePosition p = foldl (\<lambda>aggregate pair. aggregate + snd pair) 0 (positions p)"

text \<open>The quantity held in a book (\<open>GetPosition\<close> reads \<open>positions[book]\<close>, which is 0
  for a book without an entry).\<close>

definition GetPosition :: "Position \<Rightarrow> string \<Rightarrow> int" where
  "GetPosition p book = qty_at (positions p) book"

record PositionService =
  ps_positions :: "string \<rightharpoonup> Position"
  ps_notified :: "Position list"

definition PositionService_init :: PositionService where
  "PositionService_init = \<lparr> ps_positions = Map.empty, ps_notified = [] \<rparr>"

definition UpdatePositionFromTrade :: "Trade \<Rightarrow> Position \<Rightarrow> Position" where
  "UpdatePositionFromTrade trade position =
     (case trade_side trade of
        BUY \<Rightarrow> Position_AddPosition position (trade_book trade) (trade_quantity trade)
      | SELL \<Rightarrow> Position_AddPosition position (trade_book trade) (- trade_quantity trade))"

definition MergePositions :: "Position \<Rightarrow> Position \<Rightarrow> Position" where
  "MergePositions fromPosition toPosition =
     foldl (\<lambda>to p. Position_AddPosition to (fst p) (snd p)) toPosition (positions fromPosition)"

text \<open>\<open>PositionService::AddTrade\<close> (lines 259-278): first the position handed to the
  listeners, then the whole call.\<close>

definition AddTrade_position :: "PositionService \<Rightarrow> Trade \<Rightarrow> Position" where
  "AddTrade_position s trade =
     (let newPosition = UpdatePositionFromTrade trade (Position_new (trade_product trade)) in
      case ps_positions s (productId (trade_product trade)) of
        Some stored \<Rightarrow> MergePositions stored newPosition
      | None \<Rightarrow> newPosition)"

definition AddTrade :: "PositionService \<Rightarrow> Trade \<Rightarrow> PositionService" where
  "AddTrade s trade =
     (let newPosition = AddTrade_position s trade in
      s\<lparr> ps_positions := (ps_positions s)(productId (trade_product trade) \<mapsto> newPosition),
         ps_notified := ps_notified s @ [newPosition] \<rparr>)"

subsection \<open>riskservice.hpp and utils.hpp\<close>

record PV01 =
  pv_product :: Bond
  pv01 :: rat
  pv_quantity :: int

definition calculatePV01 :: "string \<Rightarrow> rat" where
  "calculatePV01 cusip =
     (let v0 = 0;
          v1 = (if cusip = ''91282CJL6'' then 1 / 100 else v0);
          v2 = (if cusip = ''91282CJK8'' then 2 / 100 else v1);
          v3 = (if cusip = ''91282CJN2'' then 4 / 100 else v2);
          v4 = (if cusip = ''91282CJM4'' then 6 / 100 else v3);
          v5 = (if cusip = ''91282CJJ1'' then 8 / 100 else v4);
          v6 = (if cusip = ''912810TW8'' then 12 / 100 else v5);
          v7 = (if cusip = ''912810TV0'' then 20 / 100 else v6)
      in v7)"

record RiskService =
  pvs :: "string \<rightharpoonup> PV01"
  risk_notified :: "PV01 list"

definition RiskService_init :: RiskService where
  "RiskService_init = \<lparr> pvs = Map.empty, risk_notified = [] \<rparr>"

text \<open>\<open>RiskService::AddPosition\<close> (lines 242-265).\<close>

definition AddPosition :: "RiskService \<Rightarrow> Position \<Rightarrow> RiskService" where
  "AddPosition s position =
     (let product = pos_product position;
          iD = productId product;
          val = calculatePV01 iD;
          qty = GetAggregatePosition position;
          pv = \<lparr> pv_product = product, pv01 = val, pv_quantity = qty \<rparr>
      in s\<lparr> pvs := (pvs s)(iD \<mapsto> pv), risk_notified := risk_notified s @ [pv] \<rparr>)"

text \<open>The wiring of \<open>tradingsystem.cpp\<close>: the position service notifies
  \<open>PositionRiskListner::ProcessAdd\<close>, which calls \<open>AddPosition\<close> with the position it is
  handed. One trade through both services:\<close>

definition trade_to_risk :: "PositionService \<times> RiskService \<Rightarrow> Trade \<Rightarrow> PositionService \<times> RiskService" where
  "trade_to_risk sr trade =
     (AddTrade (fst sr) trade, AddPosition (snd sr) (AddTrade_position (fst sr) trade))"

subsection \<open>inquiryservice.hpp\<close>

record Inquiry =
  inquiryId :: string
  inq_product :: Bond
  inq_side :: Side
  inq_quantity :: int
  inq_price :: price
  inq_state :: InquiryState

text \<open>\<open>InquiryService\<close>. Its constructor registers its own \<open>InquiryListener\<close> first; the
  log holds what the listeners registered after it are handed.\<close>

record InquiryService =
  inquiries :: "string \<rightharpoonup> Inquiry"
  inq_notified :: "Inquiry list"

definition InquiryService_init :: InquiryService where
  "InquiryService_init = \<lparr> inquiries = Map.empty, inq_notified = [] \<rparr>"

text \<open>\<open>OnMessage\<close>, \<open>InquiryListener::ProcessAdd\<close>, \<open>SendQuote\<close> and
  \<open>InquiryConnector::Publish\<close> call each other. \<open>SendQuote\<close> and \<open>Publish\<close> work on a
  reference to the stored inquiry: the reference is the key it is stored under.\<close>

function InquiryService_OnMessage :: "InquiryService \<Rightarrow> Inquiry \<Rightarrow> error + InquiryService"
  and InquiryListener_ProcessAdd :: "InquiryService \<Rightarrow> Inquiry \<Rightarrow> error + InquiryService"
  and SendQuote :: "InquiryService \<Rightarrow> string \<Rightarrow> price \<Rightarrow> error + InquiryService"
  and InquiryConnector_Publish :: "InquiryService \<Rightarrow> string \<Rightarrow> error + InquiryService"
where
  "InquiryService_OnMessage s data =
     (case InquiryListener_ProcessAdd
             (s\<lparr> inquiries := (inquiries s)(inquiryId data \<mapsto> data) \<rparr>) data of
        Inl e \<Rightarrow> Inl e
      | Inr s' \<Rightarrow> Inr (s'\<lparr> inq_notified := inq_notified s' @ [data] \<rparr>))"
| "InquiryListener_ProcessAdd s data =
     (if inq_state data = RECEIVED then SendQuote s (inquiryId data) 100 else Inr s)"
| "SendQuote s k p =
     (case inquiries s k of
        None \<Rightarrow> Inl (NotFound k)
      | Some inq \<Rightarrow>
          InquiryConnector_Publish
            (s\<lparr> inquiries := (inquiries s)(k \<mapsto> inq\<lparr> inq_price := p \<rparr>) \<rparr>) k)"
| "InquiryConnector_Publish s k =
     (case inquiries s k of
        None \<Rightarrow> Inl (NotFound k)
      | Some data \<Rightarrow>
          if inq_state data = RECEIVED then
            (case InquiryService_OnMessage
                    (s\<lparr> inquiries := (inquiries s)(k \<mapsto> data\<lparr> inq_state := QUOTED \<rparr>) \<rparr>)
                    (data\<lparr> inq_state := QUOTED \<rparr>) of
               Inl e \<Rightarrow> Inl e
             | Inr s' \<Rightarrow>
                 (case inquiries s' k of
                    None \<Rightarrow> Inl (NotFound k)
                  | Some d \<Rightarrow>
                      InquiryService_OnMessage
                        (s'\<lparr> inquiries := (inquiries s')(k \<mapsto> d\<lparr> inq_state := DONE \<rparr>) \<rparr>)
                        (d\<lparr> inq_state := DONE \<rparr>)))
          else Inr s)"
  by pat_completeness auto
termination
  by (relation "measure (\<lambda>c. case c of
        Inl (Inl (s, d)) \<Rightarrow> (if inq_state d = RECEIVED then 5 else 1)
      | Inl (Inr (s, d)) \<Rightarrow> (if inq_state d = RECEIVED then 4 else 0)
      | Inr (Inl (s, k, p)) \<Rightarrow> 3
      | Inr (Inr (s, k)) \<Rightarrow> 2)") auto

text \<open>\<open>InquiryService::RejectInquiry\<close> (lines 268-273).\<close>

definition RejectInquiry :: "InquiryService \<Rightarrow> string \<Rightarrow> error + InquiryService" where
  "RejectInquiry s k =
     (case inquiries s k of
        None \<Rightarrow> Inl (NotFound k)
      | Some inq \<Rightarrow> Inr (s\<lparr> inquiries := (inquiries s)(k \<mapsto> inq\<lparr> inq_state := REJECTED \<rparr>) \<rparr>))"

subsection \<open>Vocabulary of the position invariant\<close>

text \<open>The signed quantity of a trade, the trades of a product, and the trades of a product
  on one book, as the invariant of the position store speaks of them.\<close>

definition signed_quantity :: "Trade \<Rightarrow> int" where
  "signed_quantity t = (case trade_side t of BUY \<Rightarrow> trade_quantity t | SELL \<Rightarrow> - trade_quantity t)"

definition trades_of :: "string \<Rightarrow> Trade list \<Rightarrow> Trade list" where
  "trades_of pid ts = filter (\<lambda>t. productId (trade_product t) = pid) ts"

definition trades_on :: "string \<Rightarrow> string \<Rightarrow> Trade list \<Rightarrow> Trade list" where
  "trades_on pid book ts = filter (\<lambda>t. trade_book t = book) (trades_of pid ts)"

text \<open>What holds of the store slot of a product after the trades \<open>ts\<close>.\<close>

definition netted :: "Trade list \<Rightarrow> string \<Rightarrow> Position option \<Rightarrow> bool" where
  "netted ts pid stored =
     (case stored of
        None \<Rightarrow> trades_of pid ts = []
      | Some p \<Rightarrow>
          trades_of pid ts \<noteq> []
        \<and> productId (pos_product p) = pid
        \<and> distinct (map fst (positions p))
        \<and> fst ` set (positions p) = trade_book ` set (trades_of pid ts)
        \<and> (\<forall>book. qty_at (positions p) book
               = sum_list (map signed_quantity (trades_on pid book ts)))
        \<and> sum_list (map snd (positions p)) = sum_list (map signed_quantity (trades_of pid ts)))"

subsection \<open>Vocabulary of the order-book properties\<close>

text \<open>A book both of whose stacks hold an order, and the book \<open>orderBooks[pid]\<close>
  denotes.\<close>

definition nonempty_book :: "OrderBook \<Rightarrow> bool" where
  "nonempty_book b = (bidStack b \<noteq> [] \<and> offerStack b \<noteq> [])"



text \<open>The values a function with a static slot returns over a run of invocations: the
  slot is threaded from one invocation to the next. An invocation that throws leaves the
  slot as it was and the run goes on (the caller may catch the exception); an undefined
  operation ends the run.\<close>

fun returned :: "('a option \<Rightarrow> 'x \<Rightarrow> error + ('a \<times> 'a option)) \<Rightarrow> 'a option \<Rightarrow> 'x list
                   \<Rightarrow> (error + 'a) list" where
  "returned f slot [] = []"
| "returned f slot (x # xs) =
     (case f slot x of
        Inl e \<Rightarrow> (if e = UndefinedFront then [Inl e] else Inl e # returned f slot xs)
      | Inr (r, slot') \<Rightarrow> Inr r # returned f slot' xs)"



text \<open>The total quantity of the orders at one price, and the set of (price, quantity)
  pairs of a stack.\<close>

definition level_qty :: "Order list \<Rightarrow> price \<Rightarrow> int" where
  "level_qty orders p = sum_list (map order_quantity (filter (\<lambda>order. order_price order = p) orders))"

definition levels :: "Order list \<Rightarrow> (price \<times> int) set" where
  "levels orders = (\<lambda>order. (order_price order, order_quantity order)) ` set orders"

subsection \<open>Example books\<close>

text \<open>A book with best bid 99-16 and best offer 99-17 (spread 1/32), a book with best bid
  and best offer both 99-16+ (spread 0), and a book without bids.\<close>

definition US2Y :: Bond where
  "US2Y = \<lparr> productId = ''91282CJL6'', ticker = ''US2Y'' \<rparr>"

definition book_wide :: OrderBook where
  "book_wide =
     \<lparr> book_product = US2Y,
       bidStack = [\<lparr> order_price = 99 + 16 / 32, order_quantity = 1000000, order_side = BID \<rparr>,
                   \<lparr> order_price = 99 + 15 / 32, order_quantity = 2000000, order_side = BID \<rparr>],
       offerStack = [\<lparr> order_price = 99 + 17 / 32, order_quantity = 1000000, order_side = OFFER \<rparr>,
                     \<lparr> order_price = 99 + 18 / 32, order_quantity = 2000000, order_side = OFFER \<rparr>] \<rparr>"

definition book_tight :: OrderBook where
  "book_tight =
     \<lparr> book_product = US2Y,
       bidStack = [\<lparr> order_price = 99 + 16 / 32 + 4 / 256, order_quantity = 3000000, order_side = BID \<rparr>,
                   \<lparr> order_price = 99 + 16 / 32, order_quantity = 1000000, order_side = BID \<rparr>],
       offerStack = [\<lparr> order_price = 99 + 16 / 32 + 4 / 256, order_quantity = 4000000, order_side = OFFER \<rparr>,
                     \<lparr> order_price = 99 + 17 / 32, order_quantity = 1000000, order_side = OFFER \<rparr>] \<rparr>"

definition book_no_bids :: OrderBook where
  "book_no_bids =
     \<lparr> book_product = US2Y,
       bidStack = [],
       offerStack = [\<lparr> order_price = 100, order_quantity = 1000000, order_side = OFFER \<rparr>] \<rparr>"

section \<open>Properties\<close>

subsection \<open>Booking of executions (tradebookingservice.hpp)\<close>

lemma booked_trade_fields:
  "trade_side (booked_trade l data) = (if eo_side data = BID then SELL else BUY)
   \<and> trade_quantity (booked_trade l data) = GetVisibleQuantity data + GetHiddenQuantity data
   \<and> trade_price (booked_trade l data) = eo_price data
   \<and> tradeId (booked_trade l data) = orderId data
   \<and> trade_product (booked_trade l data) = eo_product data
   \<and> trade_book (booked_trade l data) = DetermineBookFromCount (count l + 1)"
  by (simp add: booked_trade_def CreateTradeFromExecutionOrder_def DetermineSideFromPricingSide_def)

lemma ProcessAdd_books_trade:
  "trade_notified (booking (ExecutionBookingListener_ProcessAdd l data))
     = trade_notified (booking l) @ [booked_trade l data]
   \<and> trades (booking (ExecutionBookingListener_ProcessAdd l data)) (orderId data)
     = Some (booked_trade l data)
   \<and> count (ExecutionBookingListener_ProcessAdd l data) = count l + 1"
  by (simp add: ExecutionBookingListener_ProcessAdd_def BookTrade_def
      TradeBookingService_OnMessage_def booked_trade_fields)

lemma count_replay:
  "count (foldl ExecutionBookingListener_ProcessAdd l ds) = count l + int (length ds)"
  by (induction ds arbitrary: l) (simp_all add: ExecutionBookingListener_ProcessAdd_def)

lemma DetermineBookFromCount_nonneg:
  assumes "0 \<le> c"
  shows "DetermineBookFromCount c = [''TRSY1'', ''TRSY2'', ''TRSY3''] ! nat (c mod 3)"
proof -
  from assms have r: "cpp_rem c 3 = c mod 3"
    by (cases "c = 0") (simp_all add: cpp_rem_def)
  have "c mod 3 = 0 \<or> c mod 3 = 1 \<or> c mod 3 = 2" by presburger
  then show ?thesis unfolding DetermineBookFromCount_def r Let_def by auto
qed

lemma DetermineBookFromCount_of_nat:
  "DetermineBookFromCount (int n) = [''TRSY1'', ''TRSY2'', ''TRSY3''] ! (n mod 3)"
proof -
  have "nat (int n mod 3) = n mod 3" by (simp add: nat_mod_distrib)
  then show ?thesis by (simp add: DetermineBookFromCount_nonneg)
qed

lemma labels_round_robin:
  fixes n :: nat
  defines "labels \<equiv> [''TRSY1'', ''TRSY2'', ''TRSY3'']"
  shows "distinct [labels ! ((n + 1) mod 3), labels ! ((n + 2) mod 3), labels ! ((n + 3) mod 3)]
         \<and> labels ! ((n + 4) mod 3) = labels ! ((n + 1) mod 3)"
proof -
  have "n mod 3 = 0 \<or> n mod 3 = 1 \<or> n mod 3 = 2" by presburger
  moreover have "(n + 1) mod 3 = (n mod 3 + 1) mod 3" "(n + 2) mod 3 = (n mod 3 + 2) mod 3"
    "(n + 3) mod 3 = n mod 3" "(n + 4) mod 3 = (n mod 3 + 1) mod 3"
    by presburger+
  ultimately show ?thesis unfolding labels_def by (elim disjE) simp_all
qed

text \<open>The conversions between \<open>long\<close> and \<open>double\<close> on the way of a quantity.\<close>

lemma ulp_exp_small: "a < 2 ^ 53 \<Longrightarrow> ulp_exp a = 0"
  by (simp add: ulp_exp.simps)

lemma ulp_exp_2_53: "ulp_exp 9007199254740992 = 1"
  by (subst ulp_exp.simps) (simp add: ulp_exp_small)

lemma double_of_long_exact:
  assumes "\<bar>q\<bar> \<le> 2 ^ 53"
  shows "double_of_long q = of_int q"
proof (cases "\<bar>q\<bar> = 2 ^ 53")
  case True
  then have a: "nat \<bar>q\<bar> = 9007199254740992" by simp
  then have e: "ulp_exp (nat \<bar>q\<bar>) = 1" by (simp add: ulp_exp_2_53)
  have "sgn q * \<bar>q\<bar> = q" by (simp add: sgn_mult_abs)
  with True have "sgn q * 9007199254740992 = q" by simp
  then have "rat_of_int (sgn q) * 9007199254740992 = rat_of_int q"
    by (metis of_int_mult of_int_numeral)
  then show ?thesis
    by (simp add: double_of_long_def Let_def a ulp_exp_2_53)
next
  case False
  with assms have "nat \<bar>q\<bar> < 2 ^ 53" by simp
  then have e: "ulp_exp (nat \<bar>q\<bar>) = 0" by (rule ulp_exp_small)
  have "rat_of_int (sgn q) * \<bar>rat_of_int q\<bar> = rat_of_int q"
    by (metis of_int_abs of_int_mult sgn_mult_abs)
  then show ?thesis
    by (simp add: double_of_long_def Let_def e)
qed

lemma double_of_long_rounds: "double_of_long 9007199254740993 = 9007199254740992"
proof -
  have e: "ulp_exp 9007199254740993 = 1"
    by (subst ulp_exp.simps) (simp add: ulp_exp_small)
  have a: "nat \<bar>9007199254740993 :: int\<bar> = 9007199254740993" by simp
  show ?thesis by (simp add: double_of_long_def Let_def e)
qed

lemma long_of_double_of_int: "long_of_double (of_int v) = v"
  by (simp add: long_of_double_def)

text \<open>
  Claim C6. For every execution order handed to \<open>ExecutionBookingListener::ProcessAdd\<close>,
  in any listener state, the booked trade has side SELL when the order's pricing side is
  BID and BUY otherwise, the order's price, and the order id as trade id, and it is the
  trade appended to the booking service. Its quantity is the sum of what the order's two
  getters return; when the order's visible and hidden quantity fields hold the whole
  numbers \<open>v\<close> and \<open>h\<close>, that is \<open>v + h\<close>. An order made by \<open>CreateExecutionOrder\<close> with a
  quantity of at most \<open>2^53\<close> in absolute value is booked with that quantity. After any
  number of executions processed from the initial listener, the next three executions
  are booked into the three labels picked by the call counter modulo 3, which are
  pairwise distinct, and the fourth goes to the book of the first.
\<close>

theorem booking_listener_trade_and_book:
  "trade_side (booked_trade l data) = (if eo_side data = BID then SELL else BUY)
   \<and> trade_quantity (booked_trade l data) = GetVisibleQuantity data + GetHiddenQuantity data
   \<and> (visibleQuantity data = of_int v \<and> hiddenQuantity data = of_int h \<longrightarrow>
        trade_quantity (booked_trade l data) = v + h)
   \<and> trade_price (booked_trade l data) = eo_price data
   \<and> tradeId (booked_trade l data) = orderId data
   \<and> (\<bar>q\<bar> \<le> 2 ^ 53 \<longrightarrow>
        trade_quantity (booked_trade l (executionOrder (CreateExecutionOrder ob sd p q rid))) = q)
   \<and> trade_notified (booking (ExecutionBookingListener_ProcessAdd l data))
       = trade_notified (booking l) @ [booked_trade l data]
   \<and> (let l0 = foldl ExecutionBookingListener_ProcessAdd ExecutionBookingListener_init ds;
           l1 = ExecutionBookingListener_ProcessAdd l0 da;
           l2 = ExecutionBookingListener_ProcessAdd l1 db;
           l3 = ExecutionBookingListener_ProcessAdd l2 dc;
           b1 = trade_book (booked_trade l0 da);
           b2 = trade_book (booked_trade l1 db);
           b3 = trade_book (booked_trade l2 dc);
           b4 = trade_book (booked_trade l3 dd)
       in b1 = [''TRSY1'', ''TRSY2'', ''TRSY3''] ! ((length ds + 1) mod 3)
        \<and> b2 = [''TRSY1'', ''TRSY2'', ''TRSY3''] ! ((length ds + 2) mod 3)
        \<and> b3 = [''TRSY1'', ''TRSY2'', ''TRSY3''] ! ((length ds + 3) mod 3)
        \<and> distinct [b1, b2, b3] \<and> b4 = b1)"
proof -
  define n where "n = length ds"
  define l0 where "l0 = foldl ExecutionBookingListener_ProcessAdd ExecutionBookingListener_init ds"
  define l1 where "l1 = ExecutionBookingListener_ProcessAdd l0 da"
  define l2 where "l2 = ExecutionBookingListener_ProcessAdd l1 db"
  define l3 where "l3 = ExecutionBookingListener_ProcessAdd l2 dc"
  have c0: "count l0 = int n"
    by (simp add: l0_def n_def count_replay ExecutionBookingListener_init_def)
  have c1: "count l1 = int (n + 1)" by (simp add: l1_def ProcessAdd_books_trade c0)
  have c2: "count l2 = int (n + 2)" by (simp add: l2_def ProcessAdd_books_trade c1)
  have c3: "count l3 = int (n + 3)" by (simp add: l3_def ProcessAdd_books_trade c2)
  have bk: "trade_book (booked_trade l' d) = [''TRSY1'', ''TRSY2'', ''TRSY3''] ! ((m + 1) mod 3)"
    if "count l' = int m" for l' d m
    using DetermineBookFromCount_of_nat [of "m + 1"] that
    by (simp add: booked_trade_fields add.commute)
  have b1: "trade_book (booked_trade l0 da) = [''TRSY1'', ''TRSY2'', ''TRSY3''] ! ((n + 1) mod 3)"
    using bk [OF c0, of da] by (simp add: ac_simps)
  have b2: "trade_book (booked_trade l1 db) = [''TRSY1'', ''TRSY2'', ''TRSY3''] ! ((n + 2) mod 3)"
    using bk [OF c1, of db] by (simp add: ac_simps)
  have b3: "trade_book (booked_trade l2 dc) = [''TRSY1'', ''TRSY2'', ''TRSY3''] ! ((n + 3) mod 3)"
    using bk [OF c2, of dc] by (simp add: ac_simps)
  have b4: "trade_book (booked_trade l3 dd) = [''TRSY1'', ''TRSY2'', ''TRSY3''] ! ((n + 4) mod 3)"
    using bk [OF c3, of dd] by (simp add: ac_simps)
  have rr: "distinct [trade_book (booked_trade l0 da), trade_book (booked_trade l1 db),
                      trade_book (booked_trade l2 dc)]
            \<and> trade_book (booked_trade l3 dd) = trade_book (booked_trade l0 da)"
    unfolding b1 b2 b3 b4 by (rule labels_round_robin)
  have "trade_book (booked_trade l0 da) = [''TRSY1'', ''TRSY2'', ''TRSY3''] ! ((length ds + 1) mod 3)
        \<and> trade_book (booked_trade l1 db) = [''TRSY1'', ''TRSY2'', ''TRSY3''] ! ((length ds + 2) mod 3)
        \<and> trade_book (booked_trade l2 dc) = [''TRSY1'', ''TRSY2'', ''TRSY3''] ! ((length ds + 3) mod 3)
        \<and> distinct [trade_book (booked_trade l0 da), trade_book (booked_trade l1 db),
                      trade_book (booked_trade l2 dc)]
        \<and> trade_book (booked_trade l3 dd) = trade_book (booked_trade l0 da)"
    using b1 b2 b3 rr unfolding n_def by blast
  moreover have "trade_quantity (booked_trade l (executionOrder (CreateExecutionOrder ob sd p q rid))) = q"
    if "\<bar>q\<bar> \<le> 2 ^ 53"
    using double_of_long_exact [OF that]
    by (simp add: booked_trade_fields CreateExecutionOrder_def GetVisibleQuantity_def
        GetHiddenQuantity_def long_of_double_def)
  moreover have "trade_quantity (booked_trade l data) = v + h"
    if "visibleQuantity data = of_int v" "hiddenQuantity data = of_int h"
    using that
    by (simp add: booked_trade_fields GetVisibleQuantity_def GetHiddenQuantity_def
        long_of_double_of_int)
  ultimately show ?thesis
    unfolding Let_def l0_def l1_def l2_def l3_def
    using booked_trade_fields [of l data] ProcessAdd_books_trade [of l data] by blast
qed

theorem booking_listener_trade_and_book_witness:
  "visibleQuantity \<lparr> eo_product = US2Y, eo_side = OFFER, orderId = ''E7'', orderType = MARKET,
       eo_price = 199 / 2, visibleQuantity = 3000000, hiddenQuantity = 6000000,
       parentOrderId = [], isChildOrder = False \<rparr> = of_int 3000000
   \<and> hiddenQuantity \<lparr> eo_product = US2Y, eo_side = OFFER, orderId = ''E7'', orderType = MARKET,
       eo_price = 199 / 2, visibleQuantity = 3000000, hiddenQuantity = 6000000,
       parentOrderId = [], isChildOrder = False \<rparr> = of_int 6000000
   \<and> booked_trade ExecutionBookingListener_init
       \<lparr> eo_product = US2Y, eo_side = OFFER, orderId = ''E7'', orderType = MARKET,
         eo_price = 199 / 2, visibleQuantity = 3000000, hiddenQuantity = 6000000,
         parentOrderId = [], isChildOrder = False \<rparr>
     = \<lparr> trade_product = US2Y, tradeId = ''E7'', trade_price = 199 / 2, trade_book = ''TRSY2'',
         trade_quantity = 9000000, trade_side = BUY \<rparr>
   \<and> \<bar>1000000 :: int\<bar> \<le> 2 ^ 53
   \<and> trade_quantity (booked_trade ExecutionBookingListener_init
         (executionOrder (CreateExecutionOrder book_tight BID (199 / 2) 1000000 ''E8''))) = 1000000
   \<and> trade_quantity (booked_trade ExecutionBookingListener_init
         (executionOrder (CreateExecutionOrder book_tight BID (199 / 2) 9007199254740993 ''E9'')))
       = 9007199254740992"
proof -
  let ?d = "\<lparr> eo_product = US2Y, eo_side = OFFER, orderId = ''E7'', orderType = MARKET,
         eo_price = 199 / 2, visibleQuantity = 3000000, hiddenQuantity = 6000000,
         parentOrderId = [], isChildOrder = False \<rparr>"
  note t = booking_listener_trade_and_book
    [where l = ExecutionBookingListener_init and data = ?d and v = 3000000 and h = 6000000
       and q = 1000000 and ob = book_tight and sd = BID and p = "199 / 2" and rid = "''E8''"
       and ds = "[]" and da = ?d and db = ?d and dc = ?d and dd = ?d]
  have fields: "visibleQuantity ?d = of_int 3000000" "hiddenQuantity ?d = of_int 6000000"
    by simp_all
  from t fields have qty: "trade_quantity (booked_trade ExecutionBookingListener_init ?d) = 9000000"
    by simp
  from t have made: "trade_quantity (booked_trade ExecutionBookingListener_init
         (executionOrder (CreateExecutionOrder book_tight BID (199 / 2) 1000000 ''E8''))) = 1000000"
    by simp
  have rest: "booked_trade ExecutionBookingListener_init ?d
     = \<lparr> trade_product = US2Y, tradeId = ''E7'', trade_price = 199 / 2, trade_book = ''TRSY2'',
         trade_quantity = trade_quantity (booked_trade ExecutionBookingListener_init ?d),
         trade_side = BUY \<rparr>"
    by (simp add: booked_trade_def CreateTradeFromExecutionOrder_def
        DetermineSideFromPricingSide_def DetermineBookFromCount_def cpp_rem_def
        ExecutionBookingListener_init_def)
  have big: "trade_quantity (booked_trade ExecutionBookingListener_init
         (executionOrder (CreateExecutionOrder book_tight BID (199 / 2) 9007199254740993 ''E9'')))
       = 9007199254740992"
    by (simp add: booked_trade_fields CreateExecutionOrder_def GetVisibleQuantity_def
        GetHiddenQuantity_def long_of_double_def double_of_long_rounds)
  show ?thesis using fields qty made rest big by simp
qed

subsection \<open>Inquiry lifecycle (inquiryservice.hpp)\<close>

lemma OnMessage_settled:
  assumes "inq_state data \<noteq> RECEIVED"
  shows "InquiryService_OnMessage s data =
           Inr (s\<lparr> inquiries := (inquiries s)(inquiryId data \<mapsto> data),
                   inq_notified := inq_notified s @ [data] \<rparr>)"
  using assms by simp

lemma SendQuote_received:
  assumes "inquiries s k = Some data" and "inq_state data = RECEIVED" and "inquiryId data = k"
  shows "SendQuote s k p =
           Inr (s\<lparr> inquiries := (inquiries s)(k \<mapsto> data\<lparr> inq_price := p, inq_state := DONE \<rparr>),
                   inq_notified := inq_notified s
                     @ [data\<lparr> inq_price := p, inq_state := QUOTED \<rparr>,
                        data\<lparr> inq_price := p, inq_state := DONE \<rparr>] \<rparr>)"
  using assms by simp

text \<open>
  Claim C8. An inquiry that arrives at \<open>InquiryService::OnMessage\<close> in state RECEIVED
  is resolved within that one call, in any service state: the call returns (no error),
  the stored inquiry then has the fixed response price 100 and state DONE, and the
  listeners behind the service's own listener have been handed the inquiry as QUOTED and
  then as DONE, both with price 100, before the outer notification of the inquiry as it
  arrived. Nothing else in the store changes.
\<close>

theorem received_inquiry_resolves_to_done:
  assumes "inq_state data = RECEIVED"
  shows "InquiryService_OnMessage s data =
           Inr (s\<lparr> inquiries := (inquiries s)(inquiryId data \<mapsto>
                                      data\<lparr> inq_price := 100, inq_state := DONE \<rparr>),
                   inq_notified := inq_notified s
                     @ [data\<lparr> inq_price := 100, inq_state := QUOTED \<rparr>,
                        data\<lparr> inq_price := 100, inq_state := DONE \<rparr>,
                        data] \<rparr>)"
  using assms by simp

theorem received_inquiry_resolves_to_done_witness:
  "inq_state \<lparr> inquiryId = ''Q1'', inq_product = Bond_default, inq_side = BUY,
               inq_quantity = 1000000, inq_price = 99, inq_state = RECEIVED \<rparr> = RECEIVED
   \<and> InquiryService_OnMessage InquiryService_init
        \<lparr> inquiryId = ''Q1'', inq_product = Bond_default, inq_side = BUY,
          inq_quantity = 1000000, inq_price = 99, inq_state = RECEIVED \<rparr>
     = Inr \<lparr> inquiries = [''Q1'' \<mapsto>
                 \<lparr> inquiryId = ''Q1'', inq_product = Bond_default, inq_side = BUY,
                   inq_quantity = 1000000, inq_price = 100, inq_state = DONE \<rparr>],
              inq_notified =
                [\<lparr> inquiryId = ''Q1'', inq_product = Bond_default, inq_side = BUY,
                   inq_quantity = 1000000, inq_price = 100, inq_state = QUOTED \<rparr>,
                 \<lparr> inquiryId = ''Q1'', inq_product = Bond_default, inq_side = BUY,
                   inq_quantity = 1000000, inq_price = 100, inq_state = DONE \<rparr>,
                 \<lparr> inquiryId = ''Q1'', inq_product = Bond_default, inq_side = BUY,
                   inq_quantity = 1000000, inq_price = 99, inq_state = RECEIVED \<rparr>] \<rparr>"
  using received_inquiry_resolves_to_done
    [of "\<lparr> inquiryId = ''Q1'', inq_product = Bond_default, inq_side = BUY,
           inq_quantity = 1000000, inq_price = 99, inq_state = RECEIVED \<rparr>"
        InquiryService_init]
  by (simp add: InquiryService_init_def)

text \<open>
  Claim C9. For every stored inquiry, \<open>RejectInquiry\<close> returns and sets the state of that
  inquiry to REJECTED; the notification log is unchanged (no listener is called), the
  other fields of the inquiry keep their values, and every other entry of the store is
  unchanged. In contrast, the quote path (\<open>SendQuote\<close>) on a stored RECEIVED inquiry hands
  the listeners the inquiry twice.
\<close>

theorem reject_changes_state_only:
  assumes "inquiries s k = Some inq"
  shows "RejectInquiry s k = Inr (s\<lparr> inquiries := (inquiries s)(k \<mapsto> inq\<lparr> inq_state := REJECTED \<rparr>) \<rparr>)
    \<and> (case RejectInquiry s k of
          Inl e \<Rightarrow> False
        | Inr s' \<Rightarrow>
            inq_notified s' = inq_notified s
          \<and> (\<forall>k'. k' \<noteq> k \<longrightarrow> inquiries s' k' = inquiries s k')
          \<and> (case inquiries s' k of
                None \<Rightarrow> False
              | Some inq' \<Rightarrow>
                  inq_state inq' = REJECTED
                \<and> inquiryId inq' = inquiryId inq \<and> inq_product inq' = inq_product inq
                \<and> inq_side inq' = inq_side inq \<and> inq_quantity inq' = inq_quantity inq
                \<and> inq_price inq' = inq_price inq))
    \<and> (inq_state inq = RECEIVED \<and> inquiryId inq = k \<longrightarrow>
         (case SendQuote s k p of
            Inl e \<Rightarrow> False
          | Inr s' \<Rightarrow> inq_notified s' = inq_notified s
               @ [inq\<lparr> inq_price := p, inq_state := QUOTED \<rparr>,
                  inq\<lparr> inq_price := p, inq_state := DONE \<rparr>]))"
  using assms SendQuote_received [of s k inq p] by (auto simp: RejectInquiry_def)

theorem reject_changes_state_only_witness:
  "inquiries \<lparr> inquiries = [''Q1'' \<mapsto>
                 \<lparr> inquiryId = ''Q1'', inq_product = Bond_default, inq_side = SELL,
                   inq_quantity = 5, inq_price = 99, inq_state = RECEIVED \<rparr>],
               inq_notified = [] \<rparr> ''Q1''
     = Some \<lparr> inquiryId = ''Q1'', inq_product = Bond_default, inq_side = SELL,
               inq_quantity = 5, inq_price = 99, inq_state = RECEIVED \<rparr>
   \<and> RejectInquiry \<lparr> inquiries = [''Q1'' \<mapsto>
                 \<lparr> inquiryId = ''Q1'', inq_product = Bond_default, inq_side = SELL,
                   inq_quantity = 5, inq_price = 99, inq_state = RECEIVED \<rparr>],
               inq_notified = [] \<rparr> ''Q1''
     = Inr \<lparr> inquiries = [''Q1'' \<mapsto>
                 \<lparr> inquiryId = ''Q1'', inq_product = Bond_default, inq_side = SELL,
                   inq_quantity = 5, inq_price = 99, inq_state = REJECTED \<rparr>],
               inq_notified = [] \<rparr>
   \<and> SendQuote \<lparr> inquiries = [''Q1'' \<mapsto>
                 \<lparr> inquiryId = ''Q1'', inq_product = Bond_default, inq_side = SELL,
                   inq_quantity = 5, inq_price = 99, inq_state = RECEIVED \<rparr>],
               inq_notified = [] \<rparr> ''Q1'' 100
     = Inr \<lparr> inquiries = [''Q1'' \<mapsto>
                 \<lparr> inquiryId = ''Q1'', inq_product = Bond_default, inq_side = SELL,
                   inq_quantity = 5, inq_price = 100, inq_state = DONE \<rparr>],
               inq_notified =
                [\<lparr> inquiryId = ''Q1'', inq_product = Bond_default, inq_side = SELL,
                   inq_quantity = 5, inq_price = 100, inq_state = QUOTED \<rparr>,
                 \<lparr> inquiryId = ''Q1'', inq_product = Bond_default, inq_side = SELL,
                   inq_quantity = 5, inq_price = 100, inq_state = DONE \<rparr>] \<rparr>"
  using reject_changes_state_only
    [of "\<lparr> inquiries = [''Q1'' \<mapsto>
                 \<lparr> inquiryId = ''Q1'', inq_product = Bond_default, inq_side = SELL,
                   inq_quantity = 5, inq_price = 99, inq_state = RECEIVED \<rparr>],
               inq_notified = [] \<rparr>" "''Q1''"
         "\<lparr> inquiryId = ''Q1'', inq_product = Bond_default, inq_side = SELL,
                   inq_quantity = 5, inq_price = 99, inq_state = RECEIVED \<rparr>" 100]
  by simp

subsection \<open>Position netting (positionservice.hpp)\<close>

lemma foldl_add_snd: "foldl (\<lambda>aggregate pair. aggregate + snd pair) a m = a + sum_list (map snd m)"
  for a :: int
  by (induction m arbitrary: a) simp_all

lemma GetAggregatePosition_sum: "GetAggregatePosition p = sum_list (map snd (positions p))"
  by (simp add: GetAggregatePosition_def foldl_add_snd)

lemma map_of_add_entry:
  "map_of (add_entry m book q) =
     (map_of m)(book \<mapsto> (case map_of m book of None \<Rightarrow> q | Some q' \<Rightarrow> q' + q))"
  by (induction m book q rule: add_entry.induct) (auto simp: fun_eq_iff)

lemma keys_add_entry: "fst ` set (add_entry m k q) = insert k (fst ` set m)"
  by (induction m k q rule: add_entry.induct) auto

lemma distinct_add_entry: "distinct (map fst m) \<Longrightarrow> distinct (map fst (add_entry m book q))"
proof (induction m book q rule: add_entry.induct)
  case (1 book quantity)
  then show ?case by simp
next
  case (2 b q m book quantity)
  then show ?case using keys_add_entry [of m book quantity] by auto
qed

lemma sum_add_entry: "sum_list (map snd (add_entry m book q)) = sum_list (map snd m) + q"
  by (induction m book q rule: add_entry.induct) auto

lemma qty_at_add_entry:
  "qty_at (add_entry m book q) b = (if b = book then qty_at m b + q else qty_at m b)"
  by (simp add: qty_at_def map_of_add_entry split: option.splits)

lemma merge_fold:
  "positions (foldl (\<lambda>to p. Position_AddPosition to (fst p) (snd p)) to es)
     = foldl (\<lambda>m p. add_entry m (fst p) (snd p)) (positions to) es"
  by (induction es arbitrary: to) (simp_all add: Position_AddPosition_def)

lemma merge_product:
  "pos_product (foldl (\<lambda>to p. Position_AddPosition to (fst p) (snd p)) to es) = pos_product to"
  by (induction es arbitrary: to) (simp_all add: Position_AddPosition_def)

lemma fold_keys:
  "fst ` set (foldl (\<lambda>m p. add_entry m (fst p) (snd p)) m es) = fst ` set m \<union> fst ` set es"
  by (induction es arbitrary: m) (simp_all add: keys_add_entry)

lemma fold_distinct:
  "distinct (map fst m) \<Longrightarrow> distinct (map fst (foldl (\<lambda>m p. add_entry m (fst p) (snd p)) m es))"
  by (induction es arbitrary: m) (simp_all add: distinct_add_entry)

lemma fold_sum:
  "sum_list (map snd (foldl (\<lambda>m p. add_entry m (fst p) (snd p)) m es))
     = sum_list (map snd m) + sum_list (map snd es)"
  by (induction es arbitrary: m) (simp_all add: sum_add_entry)

lemma fold_qty_filter:
  "qty_at (foldl (\<lambda>m p. add_entry m (fst p) (snd p)) m es) k
     = qty_at m k + sum_list (map snd (filter (\<lambda>e. fst e = k) es))"
  by (induction es arbitrary: m) (auto simp: qty_at_add_entry)

lemma filter_sum_distinct:
  assumes "distinct (map fst es)"
  shows "sum_list (map snd (filter (\<lambda>e. fst e = k) es)) = qty_at es k"
  using assms
proof (induction es)
  case Nil
  then show ?case by (simp add: qty_at_def)
next
  case (Cons e es)
  obtain k' q where e: "e = (k', q)" by (cases e)
  show ?case
  proof (cases "k' = k")
    case True
    with Cons.prems e have "k \<notin> fst ` set es" by auto
    then have "filter (\<lambda>e. fst e = k) es = []" by (auto simp: filter_empty_conv)
    with True e show ?thesis by (simp add: qty_at_def)
  next
    case False
    with Cons e show ?thesis by (simp add: qty_at_def)
  qed
qed

lemma fold_qty:
  "distinct (map fst es) \<Longrightarrow>
   qty_at (foldl (\<lambda>m p. add_entry m (fst p) (snd p)) m es) k = qty_at m k + qty_at es k"
  by (simp add: fold_qty_filter filter_sum_distinct)

lemma new_position:
  "UpdatePositionFromTrade t (Position_new (trade_product t))
     = \<lparr> pos_product = trade_product t, positions = [(trade_book t, signed_quantity t)] \<rparr>"
  by (cases "trade_side t")
     (simp_all add: UpdatePositionFromTrade_def Position_new_def Position_AddPosition_def
        signed_quantity_def)

lemma AddTrade_position_fresh:
  assumes "ps_positions s (productId (trade_product t)) = None"
  shows "AddTrade_position s t
     = \<lparr> pos_product = trade_product t, positions = [(trade_book t, signed_quantity t)] \<rparr>"
  using assms by (simp add: AddTrade_position_def new_position)

lemma AddTrade_position_merged:
  assumes "ps_positions s (productId (trade_product t)) = Some stored"
  shows "pos_product (AddTrade_position s t) = trade_product t"
    and "positions (AddTrade_position s t)
           = foldl (\<lambda>m p. add_entry m (fst p) (snd p)) [(trade_book t, signed_quantity t)]
               (positions stored)"
  using assms
  by (simp_all add: AddTrade_position_def new_position MergePositions_def merge_fold merge_product)

lemma AddTrade_store:
  "ps_positions (AddTrade s t) pid
     = (if pid = productId (trade_product t) then Some (AddTrade_position s t)
        else ps_positions s pid)"
  by (simp add: AddTrade_def Let_def)

lemma AddTrade_notified:
  "ps_notified (AddTrade s t) = ps_notified s @ [AddTrade_position s t]"
  by (simp add: AddTrade_def Let_def)

lemma netted_step:
  assumes "netted ts pid (ps_positions s pid)"
  shows "netted (ts @ [t]) pid (ps_positions (AddTrade s t) pid)"
proof (cases "pid = productId (trade_product t)")
  case False
  then have e1: "trades_of pid (ts @ [t]) = trades_of pid ts"
    and e2: "\<And>b. trades_on pid b (ts @ [t]) = trades_on pid b ts"
    by (simp_all add: trades_of_def trades_on_def)
  have "netted (ts @ [t]) pid x = netted ts pid x" for x
    unfolding netted_def e1 e2 ..
  with assms False show ?thesis by (simp add: AddTrade_store)
next
  case True
  then have T: "productId (trade_product t) = pid" by simp
  have tof: "trades_of pid (ts @ [t]) = trades_of pid ts @ [t]"
    using T by (simp add: trades_of_def)
  have ton: "trades_on pid b (ts @ [t])
               = trades_on pid b ts @ (if trade_book t = b then [t] else [])" for b
    using T by (simp add: trades_on_def trades_of_def)
  have st: "ps_positions (AddTrade s t) pid = Some (AddTrade_position s t)"
    using T by (simp add: AddTrade_store)
  show ?thesis
  proof (cases "ps_positions s pid")
    case None
    with assms have e: "trades_of pid ts = []" by (simp add: netted_def)
    then have e': "trades_on pid b ts = []" for b by (simp add: trades_on_def)
    from None T have "ps_positions s (productId (trade_product t)) = None" by simp
    note f = AddTrade_position_fresh [OF this]
    show ?thesis
      unfolding st f netted_def using T by (simp add: tof ton e e' qty_at_def)
  next
    case (Some p)
    with assms have inv: "trades_of pid ts \<noteq> []" "distinct (map fst (positions p))"
      "fst ` set (positions p) = trade_book ` set (trades_of pid ts)"
      "\<And>book. qty_at (positions p) book = sum_list (map signed_quantity (trades_on pid book ts))"
      "sum_list (map snd (positions p)) = sum_list (map signed_quantity (trades_of pid ts))"
      by (simp_all add: netted_def)
    from Some T have "ps_positions s (productId (trade_product t)) = Some p" by simp
    note m = AddTrade_position_merged [OF this]
    have q: "qty_at (positions (AddTrade_position s t)) book
               = sum_list (map signed_quantity (trades_on pid book (ts @ [t])))" for book
      by (simp add: m fold_qty inv ton, simp add: qty_at_def)
    have k: "fst ` set (positions (AddTrade_position s t)) = trade_book ` set (trades_of pid (ts @ [t]))"
      by (simp add: m fold_keys inv tof)
    have d: "distinct (map fst (positions (AddTrade_position s t)))"
      by (simp add: m fold_distinct)
    have a: "sum_list (map snd (positions (AddTrade_position s t)))
               = sum_list (map signed_quantity (trades_of pid (ts @ [t])))"
      by (simp add: m fold_sum inv tof)
    have n: "trades_of pid (ts @ [t]) \<noteq> []" by (simp add: tof)
    show ?thesis
      unfolding st netted_def using T q k d a n m(1) by simp
  qed
qed

lemma netted_replay: "netted ts pid (ps_positions (foldl AddTrade PositionService_init ts) pid)"
proof (induction ts rule: rev_induct)
  case Nil
  then show ?case by (simp add: netted_def PositionService_init_def trades_of_def)
next
  case (snoc t ts)
  then show ?case by (simp add: netted_step)
qed

lemma sum_over_books:
  assumes "distinct (map fst m)"
  shows "sum_list (map snd m) = (\<Sum>book \<in> fst ` set m. qty_at m book)"
  using assms
proof (induction m)
  case Nil
  then show ?case by simp
next
  case (Cons e m)
  obtain b q where e: "e = (b, q)" by (cases e)
  from Cons.prems e have nb: "b \<notin> fst ` set m" and dm: "distinct (map fst m)" by auto
  have same: "qty_at (e # m) book = qty_at m book" if "book \<in> fst ` set m" for book
    using that nb e by (auto simp: qty_at_def)
  have "(\<Sum>book \<in> fst ` set (e # m). qty_at (e # m) book)
          = qty_at (e # m) b + (\<Sum>book \<in> fst ` set m. qty_at (e # m) book)"
    using nb e by simp
  also have "\<dots> = q + (\<Sum>book \<in> fst ` set m. qty_at m book)"
    using same e by (simp add: qty_at_def)
  finally show ?case using Cons.IH [OF dm] e by simp
qed

lemma GetPosition_qty: "GetPosition p book = qty_at (positions p) book"
  by (simp add: GetPosition_def)

lemma entry_qty:
  assumes "distinct (map fst m)" and "(book, q) \<in> set m"
  shows "qty_at m book = q"
  using assms by (simp add: qty_at_def)

text \<open>
  Claim C5. After any sequence of trades processed by \<open>PositionService::AddTrade\<close> from
  the empty service, and for any product id: the store has a position for the product
  exactly when one of the trades was on it; every book entry of the stored position holds
  the sum of the signed quantities (+quantity for BUY, -quantity for SELL) of the trades
  of that product on that book, and a book is present only if it was traded;
  \<open>GetPosition\<close> returns that sum for every book; and the aggregate position is the
  sum of the book-level quantities over the books of the position, which is the sum of
  the signed quantities of all trades of the product.
\<close>

theorem position_netting:
  "case ps_positions (foldl AddTrade PositionService_init ts) pid of
     None \<Rightarrow> trades_of pid ts = []
   | Some p \<Rightarrow>
       trades_of pid ts \<noteq> []
     \<and> (\<forall>book q. (book, q) \<in> set (positions p) \<longrightarrow>
           q = sum_list (map signed_quantity (trades_on pid book ts))
         \<and> trades_on pid book ts \<noteq> [])
     \<and> (\<forall>book. GetPosition p book = sum_list (map signed_quantity (trades_on pid book ts)))
     \<and> GetAggregatePosition p = (\<Sum>book \<in> fst ` set (positions p). GetPosition p book)
     \<and> GetAggregatePosition p = sum_list (map signed_quantity (trades_of pid ts))"
proof (cases "ps_positions (foldl AddTrade PositionService_init ts) pid")
  case None
  with netted_replay [of ts pid] show ?thesis by (simp add: netted_def)
next
  case (Some p)
  with netted_replay [of ts pid] have inv: "trades_of pid ts \<noteq> []"
    "distinct (map fst (positions p))"
    "fst ` set (positions p) = trade_book ` set (trades_of pid ts)"
    "\<And>book. qty_at (positions p) book = sum_list (map signed_quantity (trades_on pid book ts))"
    "sum_list (map snd (positions p)) = sum_list (map signed_quantity (trades_of pid ts))"
    by (simp_all add: netted_def)
  have entries: "q = sum_list (map signed_quantity (trades_on pid book ts))
                 \<and> trades_on pid book ts \<noteq> []"
    if "(book, q) \<in> set (positions p)" for book q
  proof
    from entry_qty [OF inv(2) that] inv(4) [of book]
    show "q = sum_list (map signed_quantity (trades_on pid book ts))" by simp
    from that have "book \<in> fst ` set (positions p)" by force
    then obtain t where "t \<in> set (trades_of pid ts)" "trade_book t = book"
      unfolding inv(3) by auto
    then have "t \<in> set (trades_on pid book ts)" by (simp add: trades_on_def)
    then show "trades_on pid book ts \<noteq> []" by auto
  qed
  have agg: "GetAggregatePosition p = (\<Sum>book \<in> fst ` set (positions p). GetPosition p book)"
    by (simp add: GetAggregatePosition_sum sum_over_books [OF inv(2)] GetPosition_qty)
  show ?thesis
    using Some inv(1) entries agg inv(4) inv(5)
    by (simp add: GetPosition_qty GetAggregatePosition_sum)
qed

theorem position_netting_witness:
  "ps_positions (foldl AddTrade PositionService_init
        [\<lparr> trade_product = \<lparr> productId = ''91282CJL6'', ticker = ''US2Y'' \<rparr>, tradeId = ''T1'',
           trade_price = 99, trade_book = ''TRSY1'', trade_quantity = 5, trade_side = BUY \<rparr>,
         \<lparr> trade_product = \<lparr> productId = ''91282CJL6'', ticker = ''US2Y'' \<rparr>, tradeId = ''T2'',
           trade_price = 99, trade_book = ''TRSY1'', trade_quantity = 2, trade_side = SELL \<rparr>,
         \<lparr> trade_product = \<lparr> productId = ''91282CJK8'', ticker = ''US3Y'' \<rparr>, tradeId = ''T3'',
           trade_price = 100, trade_book = ''TRSY1'', trade_quantity = 4, trade_side = SELL \<rparr>,
         \<lparr> trade_product = \<lparr> productId = ''91282CJL6'', ticker = ''US2Y'' \<rparr>, tradeId = ''T4'',
           trade_price = 99, trade_book = ''TRSY2'', trade_quantity = 7, trade_side = BUY \<rparr>])
      ''91282CJL6''
    = Some \<lparr> pos_product = \<lparr> productId = ''91282CJL6'', ticker = ''US2Y'' \<rparr>,
              positions = [(''TRSY2'', 7), (''TRSY1'', 3)] \<rparr>
   \<and> GetPosition \<lparr> pos_product = \<lparr> productId = ''91282CJL6'', ticker = ''US2Y'' \<rparr>,
              positions = [(''TRSY2'', 7), (''TRSY1'', 3)] \<rparr> ''TRSY1'' = 5 - 2
   \<and> GetAggregatePosition \<lparr> pos_product = \<lparr> productId = ''91282CJL6'', ticker = ''US2Y'' \<rparr>,
              positions = [(''TRSY2'', 7), (''TRSY1'', 3)] \<rparr> = 5 - 2 + 7"
  using position_netting
    [where ts = "[\<lparr> trade_product = \<lparr> productId = ''91282CJL6'', ticker = ''US2Y'' \<rparr>, tradeId = ''T1'',
           trade_price = 99, trade_book = ''TRSY1'', trade_quantity = 5, trade_side = BUY \<rparr>,
         \<lparr> trade_product = \<lparr> productId = ''91282CJL6'', ticker = ''US2Y'' \<rparr>, tradeId = ''T2'',
           trade_price = 99, trade_book = ''TRSY1'', trade_quantity = 2, trade_side = SELL \<rparr>,
         \<lparr> trade_product = \<lparr> productId = ''91282CJK8'', ticker = ''US3Y'' \<rparr>, tradeId = ''T3'',
           trade_price = 100, trade_book = ''TRSY1'', trade_quantity = 4, trade_side = SELL \<rparr>,
         \<lparr> trade_product = \<lparr> productId = ''91282CJL6'', ticker = ''US2Y'' \<rparr>, tradeId = ''T4'',
           trade_price = 99, trade_book = ''TRSY2'', trade_quantity = 7, trade_side = BUY \<rparr>]"
        and pid = "''91282CJL6''"]
  by (simp add: AddTrade_def AddTrade_position_def PositionService_init_def
      UpdatePositionFromTrade_def Position_new_def Position_AddPosition_def MergePositions_def
      GetPosition_def qty_at_def GetAggregatePosition_def Let_def)

subsection \<open>Risk records (riskservice.hpp)\<close>

lemma AddPosition_stores:
  "pvs (AddPosition s position) (productId (pos_product position))
     = Some \<lparr> pv_product = pos_product position,
              pv01 = calculatePV01 (productId (pos_product position)),
              pv_quantity = GetAggregatePosition position \<rparr>
   \<and> risk_notified (AddPosition s position)
     = risk_notified s @ [\<lparr> pv_product = pos_product position,
              pv01 = calculatePV01 (productId (pos_product position)),
              pv_quantity = GetAggregatePosition position \<rparr>]"
  by (simp add: AddPosition_def Let_def)

lemma two_opposite_trades:
  "AddTrade_position (AddTrade PositionService_init
       \<lparr> trade_product = bond, tradeId = i1, trade_price = p1, trade_book = bk,
         trade_quantity = a, trade_side = BUY \<rparr>)
       \<lparr> trade_product = bond, tradeId = i2, trade_price = p2, trade_book = bk,
         trade_quantity = b, trade_side = SELL \<rparr>
   = \<lparr> pos_product = bond, positions = [(bk, a - b)] \<rparr>"
  by (simp add: AddTrade_position_def AddTrade_def PositionService_init_def Let_def
      UpdatePositionFromTrade_def Position_new_def Position_AddPosition_def MergePositions_def)

text \<open>
  Claim C1, as the code has it. For every position handed to \<open>RiskService::AddPosition\<close>,
  in any service state, the PV01 record stored under the product id and handed to the
  listeners carries the static per-product factor \<open>calculatePV01\<close> itself as its value
  (the factor is not multiplied by the position) and the aggregate position as its
  quantity. After a BUY of \<open>a\<close> and a SELL of \<open>b\<close> of one product on one book, run
  through the position service and its risk listener from empty services, the stored
  record has value \<open>f\<close> and quantity \<open>a - b\<close>, where \<open>f\<close> is the product's factor.
\<close>

theorem pv01_record_holds_factor_and_quantity:
  "pvs (AddPosition s position) (productId (pos_product position))
     = Some \<lparr> pv_product = pos_product position,
              pv01 = calculatePV01 (productId (pos_product position)),
              pv_quantity = GetAggregatePosition position \<rparr>
   \<and> risk_notified (AddPosition s position)
     = risk_notified s @ [\<lparr> pv_product = pos_product position,
              pv01 = calculatePV01 (productId (pos_product position)),
              pv_quantity = GetAggregatePosition position \<rparr>]
   \<and> (let rs = snd (trade_to_risk (trade_to_risk (PositionService_init, RiskService_init)
                 \<lparr> trade_product = bond, tradeId = i1, trade_price = p1, trade_book = bk,
                   trade_quantity = a, trade_side = BUY \<rparr>)
                 \<lparr> trade_product = bond, tradeId = i2, trade_price = p2, trade_book = bk,
                   trade_quantity = b, trade_side = SELL \<rparr>)
       in pvs rs (productId bond)
            = Some \<lparr> pv_product = bond, pv01 = calculatePV01 (productId bond),
                     pv_quantity = a - b \<rparr>
        \<and> risk_notified rs
            = [\<lparr> pv_product = bond, pv01 = calculatePV01 (productId bond), pv_quantity = a \<rparr>,
               \<lparr> pv_product = bond, pv01 = calculatePV01 (productId bond),
                 pv_quantity = a - b \<rparr>])"
proof -
  have first: "AddTrade_position PositionService_init
       \<lparr> trade_product = bond, tradeId = i1, trade_price = p1, trade_book = bk,
         trade_quantity = a, trade_side = BUY \<rparr>
     = \<lparr> pos_product = bond, positions = [(bk, a)] \<rparr>"
    by (simp add: AddTrade_position_def PositionService_init_def Let_def
        UpdatePositionFromTrade_def Position_new_def Position_AddPosition_def)
  have agg: "GetAggregatePosition \<lparr> pos_product = bond, positions = [(bk, q)] \<rparr> = q" for q
    by (simp add: GetAggregatePosition_def)
  show ?thesis
    using AddPosition_stores [of s position]
    by (simp add: trade_to_risk_def first two_opposite_trades Let_def agg)
       (simp add: AddPosition_def RiskService_init_def agg Let_def)
qed

text \<open>
  Claim C1 as first stated (value = factor times aggregate position) fails: after a BUY
  of 5 and a SELL of 2 of 91282CJL6 on TRSY1 the stored value is 1/100, the factor, while
  the factor times the aggregate position 3 is 3/100.
\<close>

theorem pv01_value_not_scaled_counterexample:
  "map_option pv01
     (pvs (snd (trade_to_risk (trade_to_risk (PositionService_init, RiskService_init)
         \<lparr> trade_product = \<lparr> productId = ''91282CJL6'', ticker = ''US2Y'' \<rparr>, tradeId = ''T1'',
           trade_price = 99, trade_book = ''TRSY1'', trade_quantity = 5, trade_side = BUY \<rparr>)
         \<lparr> trade_product = \<lparr> productId = ''91282CJL6'', ticker = ''US2Y'' \<rparr>, tradeId = ''T2'',
           trade_price = 99, trade_book = ''TRSY1'', trade_quantity = 2, trade_side = SELL \<rparr>))
       ''91282CJL6'')
     = Some (1 / 100)
   \<and> calculatePV01 ''91282CJL6'' * of_int (5 - 2) = 3 / 100
   \<and> map_option pv01
     (pvs (snd (trade_to_risk (trade_to_risk (PositionService_init, RiskService_init)
         \<lparr> trade_product = \<lparr> productId = ''91282CJL6'', ticker = ''US2Y'' \<rparr>, tradeId = ''T1'',
           trade_price = 99, trade_book = ''TRSY1'', trade_quantity = 5, trade_side = BUY \<rparr>)
         \<lparr> trade_product = \<lparr> productId = ''91282CJL6'', ticker = ''US2Y'' \<rparr>, tradeId = ''T2'',
           trade_price = 99, trade_book = ''TRSY1'', trade_quantity = 2, trade_side = SELL \<rparr>))
       ''91282CJL6'')
     \<noteq> Some (calculatePV01 ''91282CJL6'' * of_int (5 - 2))"
  by (simp add: trade_to_risk_def AddPosition_def RiskService_init_def Let_def calculatePV01_def
      AddTrade_def AddTrade_position_def PositionService_init_def UpdatePositionFromTrade_def
      Position_new_def Position_AddPosition_def MergePositions_def GetAggregatePosition_def)

subsection \<open>Order books (marketdataservice.hpp, algoexecutionservice.hpp)\<close>

text \<open>What the two scanning loops compute: the first order, in iteration order, among
  those with the highest bid price, and the first among those with the lowest offer
  price.\<close>

lemma scan_bids_first_max:
  assumes "i < length pre" and "pre ! i = best"
    and "\<forall>j < i. order_price (pre ! j) < order_price best"
    and "\<forall>x \<in> set pre. order_price x \<le> order_price best"
  shows "\<exists>i' < length (pre @ rest). (pre @ rest) ! i' = scan_bids best rest
           \<and> (\<forall>j < i'. order_price ((pre @ rest) ! j) < order_price (scan_bids best rest))
           \<and> (\<forall>x \<in> set (pre @ rest). order_price x \<le> order_price (scan_bids best rest))"
  using assms
proof (induction rest arbitrary: pre i best)
  case Nil
  then show ?case by auto
next
  case (Cons x rest)
  show ?case
  proof (cases "order_price x > order_price best")
    case True
    have 1: "length pre < length (pre @ [x])" by simp
    have 2: "(pre @ [x]) ! length pre = x" by simp
    have 3: "\<forall>j < length pre. order_price ((pre @ [x]) ! j) < order_price x"
    proof (intro allI impI)
      fix j assume j: "j < length pre"
      then have "pre ! j \<in> set pre" by simp
      with Cons.prems(4) have "order_price (pre ! j) \<le> order_price best" by blast
      with True j show "order_price ((pre @ [x]) ! j) < order_price x"
        by (simp add: nth_append)
    qed
    have 4: "\<forall>y \<in> set (pre @ [x]). order_price y \<le> order_price x"
      using Cons.prems(4) True by auto
    from Cons.IH [OF 1 2 3 4] True show ?thesis by simp
  next
    case False
    have 1: "i < length (pre @ [x])" using Cons.prems(1) by simp
    have 2: "(pre @ [x]) ! i = best" using Cons.prems(1,2) by (simp add: nth_append)
    have 3: "\<forall>j < i. order_price ((pre @ [x]) ! j) < order_price best"
      using Cons.prems(1,3) by (auto simp: nth_append)
    have 4: "\<forall>y \<in> set (pre @ [x]). order_price y \<le> order_price best"
      using Cons.prems(4) False by auto
    from Cons.IH [OF 1 2 3 4] False show ?thesis by simp
  qed
qed

lemma scan_offers_first_min:
  assumes "i < length pre" and "pre ! i = best"
    and "\<forall>j < i. order_price (pre ! j) > order_price best"
    and "\<forall>x \<in> set pre. order_price x \<ge> order_price best"
  shows "\<exists>i' < length (pre @ rest). (pre @ rest) ! i' = scan_offers best rest
           \<and> (\<forall>j < i'. order_price ((pre @ rest) ! j) > order_price (scan_offers best rest))
           \<and> (\<forall>x \<in> set (pre @ rest). order_price x \<ge> order_price (scan_offers best rest))"
  using assms
proof (induction rest arbitrary: pre i best)
  case Nil
  then show ?case by auto
next
  case (Cons x rest)
  show ?case
  proof (cases "order_price x < order_price best")
    case True
    have 1: "length pre < length (pre @ [x])" by simp
    have 2: "(pre @ [x]) ! length pre = x" by simp
    have 3: "\<forall>j < length pre. order_price ((pre @ [x]) ! j) > order_price x"
    proof (intro allI impI)
      fix j assume j: "j < length pre"
      then have "pre ! j \<in> set pre" by simp
      with Cons.prems(4) have "order_price (pre ! j) \<ge> order_price best" by blast
      with True j show "order_price ((pre @ [x]) ! j) > order_price x"
        by (simp add: nth_append)
    qed
    have 4: "\<forall>y \<in> set (pre @ [x]). order_price y \<ge> order_price x"
      using Cons.prems(4) True by auto
    from Cons.IH [OF 1 2 3 4] True show ?thesis by simp
  next
    case False
    have 1: "i < length (pre @ [x])" using Cons.prems(1) by simp
    have 2: "(pre @ [x]) ! i = best" using Cons.prems(1,2) by (simp add: nth_append)
    have 3: "\<forall>j < i. order_price ((pre @ [x]) ! j) > order_price best"
      using Cons.prems(1,3) by (auto simp: nth_append)
    have 4: "\<forall>y \<in> set (pre @ [x]). order_price y \<ge> order_price best"
      using Cons.prems(4) False by auto
    from Cons.IH [OF 1 2 3 4] False show ?thesis by simp
  qed
qed

lemma best_of_first_best:
  assumes "bids \<noteq> []" and "asks \<noteq> []"
  shows "\<exists>i < length bids. \<exists>k < length asks.
           bidOrder (best_of bids asks) = bids ! i
         \<and> (\<forall>j < i. order_price (bids ! j) < order_price (bids ! i))
         \<and> (\<forall>x \<in> set bids. order_price x \<le> order_price (bids ! i))
         \<and> offerOrder (best_of bids asks) = asks ! k
         \<and> (\<forall>j < k. order_price (asks ! j) > order_price (asks ! k))
         \<and> (\<forall>x \<in> set asks. order_price x \<ge> order_price (asks ! k))"
proof -
  obtain b bs where bids: "bids = b # bs" using assms(1) by (cases bids) auto
  obtain a as where asks: "asks = a # as" using assms(2) by (cases asks) auto
  from scan_bids_first_max [of 0 "[b]" b bs]
  obtain i where i: "i < length bids" "bids ! i = scan_bids b bs"
    "\<forall>j < i. order_price (bids ! j) < order_price (scan_bids b bs)"
    "\<forall>x \<in> set bids. order_price x \<le> order_price (scan_bids b bs)"
    unfolding bids by auto
  from scan_offers_first_min [of 0 "[a]" a as]
  obtain k where k: "k < length asks" "asks ! k = scan_offers a as"
    "\<forall>j < k. order_price (asks ! j) > order_price (scan_offers a as)"
    "\<forall>x \<in> set asks. order_price x \<ge> order_price (scan_offers a as)"
    unfolding asks by auto
  have "bidOrder (best_of bids asks) = bids ! i" "offerOrder (best_of bids asks) = asks ! k"
    using i(2) k(2) by (simp_all add: best_of_def bids asks)
  with i k show ?thesis by metis
qed

text \<open>The static slots.\<close>

lemma GetBidAsk_first:
  "nonempty_book b \<Longrightarrow>
   GetBidAsk None b = Inr (best_of (bidStack b) (offerStack b),
                           Some (best_of (bidStack b) (offerStack b)))"
  by (simp add: GetBidAsk_def nonempty_book_def Let_def)

lemma GetBidAsk_first_empty: "\<not> nonempty_book b \<Longrightarrow> GetBidAsk None b = Inl UndefinedFront"
  by (auto simp: GetBidAsk_def nonempty_book_def Let_def)














text \<open>On its first invocation \<open>AlgoExecuteOrder\<close> decides on the book it is given.\<close>

lemma AlgoExecuteOrder_first_call:
  assumes "nonempty_book ob"
  shows "AlgoExecuteOrder None s ob rid =
    (let bo = best_of (bidStack ob) (offerStack ob);
         chosen = (if DetermineOrderSide s = BID then bidOrder bo else offerOrder bo);
         ex = CreateExecutionOrder ob (DetermineOrderSide s) (order_price chosen)
                (order_quantity chosen) rid
     in if order_price (offerOrder bo) - order_price (bidOrder bo) \<le> spread s
        then Inr (s\<lparr> algoExe := (algoExe s)(productId (book_product ob) \<mapsto> ex),
                      algo_notified := algo_notified s @ [ex],
                      side := side s + 1 \<rparr>, Some bo)
        else Inr (s, Some bo))"
  using assms
  by (simp add: AlgoExecuteOrder_def GetBidAsk_first Let_def AlgoExecutionService_OnMessage_def
      CreateExecutionOrder_def)

text \<open>
  Claim C2, at the input where the code departs from it. \<open>GetBidAsk\<close> is invoked on the
  book with best bid 99-16 and best offer 99-17 and then on the book with best bid and
  best offer 99-16+. The second invocation returns the orders of the first book again:
  its bid price 99-16 is below the bid 99-16+ of the book it was given, and its offer
  price 99-17 is above that book's offer 99-16+.
\<close>

theorem GetBidAsk_returns_stale_best:
  "returned GetBidAsk None [book_wide, book_tight]
     = [Inr \<lparr> bidOrder = \<lparr> order_price = 99 + 16 / 32, order_quantity = 1000000, order_side = BID \<rparr>,
              offerOrder = \<lparr> order_price = 99 + 17 / 32, order_quantity = 1000000, order_side = OFFER \<rparr> \<rparr>,
        Inr \<lparr> bidOrder = \<lparr> order_price = 99 + 16 / 32, order_quantity = 1000000, order_side = BID \<rparr>,
              offerOrder = \<lparr> order_price = 99 + 17 / 32, order_quantity = 1000000, order_side = OFFER \<rparr> \<rparr>]
   \<and> order_price (bidStack book_tight ! 0) = 99 + 16 / 32 + 4 / 256
   \<and> order_price (bidStack book_tight ! 0) > 99 + 16 / 32
   \<and> order_price (offerStack book_tight ! 0) = 99 + 16 / 32 + 4 / 256
   \<and> order_price (offerStack book_tight ! 0) < 99 + 17 / 32"
  by (simp add: GetBidAsk_def best_of_def book_wide_def book_tight_def Let_def)

text \<open>
  Claim C7, at the input where the code departs from it. For the book without bids,
  \<open>GetBestBidOffer\<close> fails with the EmptyBook error, but \<open>GetBidAsk\<close> has no such check:
  on its first invocation it builds the static through \<open>front()\<close> of the empty stack,
  which is undefined and throws nothing, and so does \<open>AlgoExecuteOrder\<close>, which calls it.
\<close>

theorem GetBidAsk_empty_stack_no_EmptyBook:
  "GetBidAsk None book_no_bids = Inl UndefinedFront
   \<and> GetBidAsk None book_no_bids \<noteq> Inl (EmptyBook ''91282CJL6'')
   \<and> AlgoExecuteOrder None AlgoExecutionService_init book_no_bids ''id1'' = Inl UndefinedFront
   \<and> GetBestBidOffer None (MarketDataService_OnMessage MarketDataService_init book_no_bids)
        ''91282CJL6'' = Inl (EmptyBook ''91282CJL6'')"
  by (simp add: GetBidAsk_def AlgoExecuteOrder_def GetBestBidOffer_def orderBooks_at_def
      MarketDataService_OnMessage_def MarketDataService_init_def book_no_bids_def US2Y_def Let_def)

text \<open>
  Claim C4, at the inputs where the code departs from it. After an update with spread
  1/32, an update whose best bid and best offer are equal emits no execution order and
  leaves the service as it was. In the other order, the update with spread 0 emits a BID
  execution, and the following update with spread 1/32 emits an OFFER execution priced
  and sized from the best offer of the earlier book.
\<close>

theorem AlgoExecuteOrder_decides_on_first_book:
  "algo_replay None AlgoExecutionService_init [(book_wide, ''id1''), (book_tight, ''id2'')]
     = Inr (AlgoExecutionService_init, Some (best_of (bidStack book_wide) (offerStack book_wide)))
   \<and> order_price (offerOrder (best_of (bidStack book_tight) (offerStack book_tight)))
       - order_price (bidOrder (best_of (bidStack book_tight) (offerStack book_tight))) = 0
   \<and> (case algo_replay None AlgoExecutionService_init [(book_tight, ''id1''), (book_wide, ''id2'')] of
         Inl e \<Rightarrow> False
       | Inr (s, slot) \<Rightarrow>
           map (\<lambda>a. (orderId (executionOrder a), eo_side (executionOrder a),
                      eo_price (executionOrder a), visibleQuantity (executionOrder a)))
             (algo_notified s)
           = [(''id1'', BID, 99 + 16 / 32 + 4 / 256, 3000000),
              (''id2'', OFFER, 99 + 16 / 32 + 4 / 256, 4000000)]
         \<and> side s = 2)
   \<and> order_price (offerOrder (best_of (bidStack book_wide) (offerStack book_wide)))
       - order_price (bidOrder (best_of (bidStack book_wide) (offerStack book_wide))) = 1 / 32"
  by (simp add: AlgoExecuteOrder_def GetBidAsk_def best_of_def
      book_wide_def book_tight_def Let_def AlgoExecutionService_init_def
      AlgoExecutionService_OnMessage_def CreateExecutionOrder_def DetermineOrderSide_def
      cpp_rem_def US2Y_def double_of_long_exact)

text \<open>Depth aggregation.\<close>

lemma qty_at_Nil: "qty_at [] k = 0"
  by (simp add: qty_at_def)

lemma priceToQuantity_keys:
  "fst ` set (priceToQuantity m orders) = fst ` set m \<union> order_price ` set orders"
  by (induction orders arbitrary: m) (auto simp: keys_add_entry)

lemma priceToQuantity_distinct:
  "distinct (map fst m) \<Longrightarrow> distinct (map fst (priceToQuantity m orders))"
  by (induction orders arbitrary: m) (simp_all add: distinct_add_entry)

lemma priceToQuantity_qty:
  "qty_at (priceToQuantity m orders) p = qty_at m p + level_qty orders p"
  by (induction orders arbitrary: m) (auto simp: qty_at_add_entry level_qty_def)

lemma distinct_alist_set:
  assumes "distinct (map fst m)"
  shows "set m = {(k, q). k \<in> fst ` set m \<and> q = qty_at m k}"
proof -
  have "(k, q) \<in> set m \<longleftrightarrow> k \<in> fst ` set m \<and> q = qty_at m k" for k q
  proof
    assume "(k, q) \<in> set m"
    with assms show "k \<in> fst ` set m \<and> q = qty_at m k" by (force simp: qty_at_def)
  next
    assume a: "k \<in> fst ` set m \<and> q = qty_at m k"
    then obtain q' where "(k, q') \<in> set m" by auto
    with assms a show "(k, q) \<in> set m" by (simp add: qty_at_def)
  qed
  then show ?thesis by auto
qed

lemma levels_AggregateOrders:
  "levels (AggregateOrders orders type)
     = {(p, q). p \<in> order_price ` set orders \<and> q = level_qty orders p}"
proof -
  have "levels (AggregateOrders orders type) = set (priceToQuantity [] orders)"
    by (force simp: levels_def AggregateOrders_def image_iff split: prod.splits)
  also have "\<dots> = {(p, q). p \<in> fst ` set (priceToQuantity [] orders)
                          \<and> q = qty_at (priceToQuantity [] orders) p}"
    by (rule distinct_alist_set) (simp add: priceToQuantity_distinct)
  finally show ?thesis
    by (simp add: priceToQuantity_keys priceToQuantity_qty qty_at_Nil)
qed

lemma distinct_prices_AggregateOrders:
  "distinct (map order_price (AggregateOrders orders type))"
proof -
  have "map order_price (AggregateOrders orders type) = map fst (priceToQuantity [] orders)"
    by (simp add: AggregateOrders_def split_beta)
  then show ?thesis by (simp add: priceToQuantity_distinct)
qed

lemma side_AggregateOrders: "order \<in> set (AggregateOrders orders type) \<Longrightarrow> order_side order = type"
  by (auto simp: AggregateOrders_def)

lemma level_qty_mset:
  "level_qty orders p
     = sum_mset (image_mset order_quantity (filter_mset (\<lambda>order. order_price order = p) (mset orders)))"
  unfolding level_qty_def by (simp add: sum_mset_sum_list [symmetric] del: sum_mset_sum_list)

lemma levels_distinct:
  assumes "distinct (map order_price orders)"
  shows "levels orders = {(p, q). p \<in> order_price ` set orders \<and> q = level_qty orders p}"
proof -
  let ?m = "map (\<lambda>order. (order_price order, order_quantity order)) orders"
  have d: "distinct (map fst ?m)" using assms by (simp add: comp_def)
  have q: "qty_at ?m p = level_qty orders p" for p
    using filter_sum_distinct [OF d, of p]
    by (simp add: level_qty_def filter_map comp_def)
  have "levels orders = set ?m" by (simp add: levels_def)
  also have "\<dots> = {(k, q). k \<in> fst ` set ?m \<and> q = qty_at ?m k}"
    by (rule distinct_alist_set [OF d])
  finally show ?thesis by (simp add: q image_image)
qed

text \<open>
  Claim C10. \<open>AggregateOrders\<close> yields one order per distinct price of its input, with
  the sum of the quantities at that price. Applied to its own output in any order (any
  list with the same orders as the output), it yields the same set of (price, summed
  quantity) pairs, and the same set of orders. So the book \<open>AggregateDepth\<close> computes is
  unchanged, as sets of (price, quantity) pairs on each side, by a second aggregation,
  which is what \<open>AggregateDepth\<close> computes once the aggregated book has been stored.
\<close>

theorem aggregate_depth_idempotent:
  "(mset ys = mset (AggregateOrders orders type) \<longrightarrow>
      levels (AggregateOrders ys type) = levels (AggregateOrders orders type)
    \<and> set (AggregateOrders ys type) = set (AggregateOrders orders type))
   \<and> levels (AggregateOrders orders type)
       = {(p, q). p \<in> order_price ` set orders \<and> q = level_qty orders p}
   \<and> distinct (map order_price (AggregateOrders orders type))
   \<and> levels (bidStack (aggregate_book (aggregate_book b))) = levels (bidStack (aggregate_book b))
   \<and> levels (offerStack (aggregate_book (aggregate_book b))) = levels (offerStack (aggregate_book b))
   \<and> book_product (aggregate_book (aggregate_book b)) = book_product (aggregate_book b)
   \<and> fst (AggregateDepth None (MarketDataService_OnMessage s (aggregate_book b))
            (productId (book_product b)))
       = aggregate_book (aggregate_book b)"
proof -
  have stored: "fst (AggregateDepth None (MarketDataService_OnMessage s (aggregate_book b))
            (productId (book_product b)))
       = aggregate_book (aggregate_book b)"
    by (simp add: AggregateDepth_def orderBooks_at_def MarketDataService_OnMessage_def
        static_local_def aggregate_book_def)
  have perm: "levels (AggregateOrders ys t) = levels (AggregateOrders os t)
              \<and> set (AggregateOrders ys t) = set (AggregateOrders os t)"
    if ms: "mset ys = mset (AggregateOrders os t)" for ys os t
  proof -
    let ?A = "AggregateOrders os t"
    have prices: "order_price ` set ys = order_price ` set ?A"
      using ms by (metis set_mset_mset)
    have qty: "level_qty ys p = level_qty ?A p" for p
      by (simp add: level_qty_mset ms)
    have "levels (AggregateOrders ys t)
            = {(p, q). p \<in> order_price ` set ?A \<and> q = level_qty ?A p}"
      by (simp add: levels_AggregateOrders prices qty)
    also have "\<dots> = levels ?A"
      by (rule levels_distinct [symmetric]) (rule distinct_prices_AggregateOrders)
    finally have l: "levels (AggregateOrders ys t) = levels ?A" .
    have rec: "order \<in> set (AggregateOrders xs t)
                 \<longleftrightarrow> (order_price order, order_quantity order) \<in> levels (AggregateOrders xs t)
                      \<and> order_side order = t" for order xs
      by (cases order) (force simp: levels_def AggregateOrders_def image_iff)
    from l rec have "set (AggregateOrders ys t) = set ?A" by blast
    with l show ?thesis by simp
  qed
  have twice: "levels (AggregateOrders (AggregateOrders os t) t) = levels (AggregateOrders os t)"
    for os t using perm [of "AggregateOrders os t" os t] by simp
  show ?thesis
    using perm [of ys orders type] twice stored
    by (simp add: aggregate_book_def levels_AggregateOrders [of orders type]
        distinct_prices_AggregateOrders)
qed

theorem aggregate_depth_idempotent_witness:
  "mset [\<lparr> order_price = 99, order_quantity = 5000000, order_side = BID \<rparr>,
         \<lparr> order_price = 199 / 2, order_quantity = 3000000, order_side = BID \<rparr>]
     = mset (AggregateOrders
        [\<lparr> order_price = 199 / 2, order_quantity = 1000000, order_side = BID \<rparr>,
         \<lparr> order_price = 99, order_quantity = 5000000, order_side = BID \<rparr>,
         \<lparr> order_price = 199 / 2, order_quantity = 2000000, order_side = BID \<rparr>] BID)
   \<and> levels (AggregateOrders
        [\<lparr> order_price = 99, order_quantity = 5000000, order_side = BID \<rparr>,
         \<lparr> order_price = 199 / 2, order_quantity = 3000000, order_side = BID \<rparr>] BID)
     = levels (AggregateOrders
        [\<lparr> order_price = 199 / 2, order_quantity = 1000000, order_side = BID \<rparr>,
         \<lparr> order_price = 99, order_quantity = 5000000, order_side = BID \<rparr>,
         \<lparr> order_price = 199 / 2, order_quantity = 2000000, order_side = BID \<rparr>] BID)
   \<and> levels (AggregateOrders
        [\<lparr> order_price = 199 / 2, order_quantity = 1000000, order_side = BID \<rparr>,
         \<lparr> order_price = 99, order_quantity = 5000000, order_side = BID \<rparr>,
         \<lparr> order_price = 199 / 2, order_quantity = 2000000, order_side = BID \<rparr>] BID)
     = {(199 / 2, 3000000), (99, 5000000)}"
proof -
  let ?os = "[\<lparr> order_price = 199 / 2, order_quantity = 1000000, order_side = BID \<rparr>,
         \<lparr> order_price = 99, order_quantity = 5000000, order_side = BID \<rparr>,
         \<lparr> order_price = 199 / 2, order_quantity = 2000000, order_side = BID \<rparr>]"
  let ?ys = "[\<lparr> order_price = 99, order_quantity = 5000000, order_side = BID \<rparr>,
         \<lparr> order_price = 199 / 2, order_quantity = 3000000, order_side = BID \<rparr>]"
  have agg: "AggregateOrders ?os BID
      = [\<lparr> order_price = 199 / 2, order_quantity = 3000000, order_side = BID \<rparr>,
         \<lparr> order_price = 99, order_quantity = 5000000, order_side = BID \<rparr>]"
    by (simp add: AggregateOrders_def)
  have m: "mset ?ys = mset (AggregateOrders ?os BID)"
    unfolding agg by simp
  from aggregate_depth_idempotent [where ys = ?ys and orders = ?os and type = BID] m
  have l: "levels (AggregateOrders ?ys BID) = levels (AggregateOrders ?os BID)"
    by blast
  have v: "levels (AggregateOrders ?os BID) = {(199 / 2, 3000000), (99, 5000000)}"
    unfolding agg by (simp add: levels_def)
  from m l v show ?thesis by blast
qed

end
